theory Spec2Isabelle
  imports Main "HOL-Library.Sublist"
begin

section \<open>The voice translator's server, backend/server.js\<close>

text \<open>
  The server receives one \<open>audio-stream\<close> event per utterance and drives it through
  speech-to-text, language detection, translation and speech synthesis. Every one of
  these is a call to a service outside the program. The model makes the outside a
  parameter, the \<open>world\<close>: a record of functions that answer each kind of call, given
  everything that has happened so far. The program's own state is the transcript of what
  has happened (the \<open>trace\<close>: each call with its answer, each event emitted on a socket)
  and the files of the temporary directory. An \<open>async\<close> function becomes a function
  from a state to its outcome and the state it leaves.

  Every HTTP request and every call of the Google Translate client is taken to return,
  with an answer or with an error (the HTTP requests are made with a timeout). The
  \<open>save\<close> of Google TTS has no timeout, and it may never call back. Writing to the
  console is left out, and \<open>socket.emit\<close> is taken not to throw.
\<close>

subsection \<open>Values\<close>

text \<open>A Buffer is its sequence of bytes; \<open>Buffer.from\<close> of a string is the string's bytes.\<close>

type_synonym buffer = "char list"

text \<open>
  A thrown value: its \<open>message\<close>, and for a failed HTTP request the \<open>error\<close> field of the
  response body when the response has one (\<open>error.response?.data?.error\<close>).
\<close>

datatype js_error = Error (message: string) (response_error: "string option")

text \<open>\<open>error.response?.data?.error || error.message\<close>\<close>

definition error_detail :: "js_error \<Rightarrow> string" where
  "error_detail e =
     (case response_error e of
        Some d \<Rightarrow> if d \<noteq> [] then d else message e
      | None \<Rightarrow> message e)"

text \<open>
  The outcome of awaiting a promise. \<open>Pending\<close> is the promise that is never settled.
\<close>

datatype 'a promise = Resolved 'a | Rejected js_error | Pending

text \<open>
  The \<open>audio\<close> field of an inbound event, as far as the server tells its values apart:
  absent, \<open>null\<close>, a Buffer, an object with an \<open>arrayBuffer\<close> method (a Blob), a string,
  an array of bytes.
\<close>

datatype audio_data =
    Undefined
  | Null
  | BufferValue buffer
  | BlobValue buffer
  | StringValue string
  | ArrayValue buffer

text \<open>JavaScript's truthiness, for \<open>!audioData\<close>: every object is truthy, also an empty Buffer.\<close>

fun truthy :: "audio_data \<Rightarrow> bool" where
  "truthy Undefined = False"
| "truthy Null = False"
| "truthy (StringValue str) = (str \<noteq> [])"
| "truthy (BufferValue b) = True"
| "truthy (BlobValue b) = True"
| "truthy (ArrayValue b) = True"

subsection \<open>Response bodies\<close>

text \<open>
  The body of an HTTP response is held in the shape the code tests it for; the fields the
  code reads as text (\<open>text\<close>, \<open>label\<close>, \<open>translation_text\<close>, \<open>translation\<close>) hold strings.

  Speech-to-text: \<open>response.data && typeof response.data.text === 'string'\<close>.
\<close>

datatype stt_data = Transcript string | NoTranscript

text \<open>
  Language detection: \<open>response.data[0]\<close> is an array (\<open>ScoreArray\<close>, each element
  \<open>null\<close> or given by its \<open>label\<close>, if it has one), or \<open>response.data\<close> is anything else.
\<close>

datatype score = NullScore | Score "string option"

datatype detect_data = ScoreArray "score list" | NoScoreArray

text \<open>
  Translation: \<open>response.data\<close> is falsy (\<open>NoData\<close>), an array (given by the
  \<open>translation_text\<close> of its first element, if there is one), another object (given by
  its \<open>translation\<close> field, if that is a string), or a string.
\<close>

datatype translation_data =
    NoData
  | ArrayData "string option"
  | ObjectData "string option"
  | StringData string

text \<open>
  What \<open>new gtts(text, lang)\<close> followed by \<open>speech.save(tmpFile, callback)\<close> does: the
  constructor throws; or \<open>save\<close> calls back with an error, having left at \<open>tmpFile\<close> what
  it had written (\<open>None\<close>: it had not created the file); or \<open>save\<close> never calls back
  (so it is when its request to Google fails), having left at \<open>tmpFile\<close> what it had
  written; or \<open>save\<close> has written the audio to \<open>tmpFile\<close> and calls back without an
  error. The callback runs after the promise's executor has returned.
\<close>

datatype gtts_outcome =
    ConstructorThrows js_error
  | SaveError js_error "buffer option"
  | NeverCallsBack "buffer option"
  | Saved buffer

subsection \<open>The trace and the world\<close>

type_synonym socket = string

datatype payload =
    OriginalText string
  | AudioAndText buffer string
  | Message string

text \<open>
  Each call to the outside with its arguments and its answer, and each \<open>socket.emit\<close>.
  HTTP calls name the model of the URL \<open>https://router.huggingface.co/hf-inference/models/${model}\<close>.
\<close>

datatype event =
    SttCall string buffer "js_error + stt_data"
  | DetectCall string string "js_error + detect_data"
  | GoogleDetectCall string "js_error + string"
  | GoogleTranslateCall string string string "js_error + string"
  | TranslateCall string string "js_error + translation_data"
  | TtsCall string string "js_error + buffer"
  | GttsCall string string string gtts_outcome
  | Emit socket string payload

record world =
  google_client :: bool
  stt_post :: "event list \<Rightarrow> string \<Rightarrow> buffer \<Rightarrow> js_error + stt_data"
  detect_post :: "event list \<Rightarrow> string \<Rightarrow> string \<Rightarrow> js_error + detect_data"
  translate_post :: "event list \<Rightarrow> string \<Rightarrow> string \<Rightarrow> js_error + translation_data"
  tts_post :: "event list \<Rightarrow> string \<Rightarrow> string \<Rightarrow> js_error + buffer"
  google_detect :: "event list \<Rightarrow> string \<Rightarrow> js_error + string"
  google_translate :: "event list \<Rightarrow> string \<Rightarrow> string \<Rightarrow> string \<Rightarrow> js_error + string"
  gtts :: "event list \<Rightarrow> string \<Rightarrow> string \<Rightarrow> string \<Rightarrow> gtts_outcome"
  now :: "event list \<Rightarrow> nat"
  tmpdir :: string

record state =
  trace :: "event list"
  files :: "string \<rightharpoonup> buffer"

definition record_event :: "event \<Rightarrow> state \<Rightarrow> state" where
  "record_event e s = s\<lparr>trace := trace s @ [e]\<rparr>"

definition emit :: "socket \<Rightarrow> string \<Rightarrow> payload \<Rightarrow> state \<Rightarrow> state" where
  "emit sock name p s = record_event (Emit sock name p) s"

text \<open>What a run has added to the trace.\<close>

definition new_events :: "state \<Rightarrow> state \<Rightarrow> event list" where
  "new_events s s' = drop (length (trace s)) (trace s')"

subsection \<open>The mock services (lines 67-79)\<close>

definition mockSpeechToText :: "buffer \<Rightarrow> string" where
  "mockSpeechToText audioBuffer = ''This is a test translation from the mock service''"

definition mockTranslation :: "string \<Rightarrow> string \<Rightarrow> string \<Rightarrow> string" where
  "mockTranslation txt sourceLang targetLang = ''[Translated to '' @ targetLang @ ''] '' @ txt"

definition mockTextToSpeech :: "string \<Rightarrow> string \<Rightarrow> buffer" where
  "mockTextToSpeech txt language = ''mock-audio-data''"

subsection \<open>Speech to text (lines 185-223)\<close>

text \<open>
  The loop of \<open>speechToTextWithHuggingFace\<close> over its models: a model whose request
  throws, or whose response has no string \<open>text\<close>, is passed over.
\<close>

fun stt_try_models :: "world \<Rightarrow> string list \<Rightarrow> buffer \<Rightarrow> state \<Rightarrow> (js_error + string) \<times> state" where
  "stt_try_models w [] audioBuffer s = (Inl (Error ''All STT models failed.'' None), s)"
| "stt_try_models w (model # models) audioBuffer s =
     (let response = stt_post w (trace s) model audioBuffer;
          s1 = record_event (SttCall model audioBuffer response) s
      in case response of
           Inr (Transcript t) \<Rightarrow> (Inr t, s1)
         | Inr NoTranscript \<Rightarrow> stt_try_models w models audioBuffer s1
         | Inl error \<Rightarrow> stt_try_models w models audioBuffer s1)"

definition stt_models :: "string list" where
  "stt_models = [''openai/whisper-base'', ''openai/whisper-large-v3'']"

definition speechToTextWithHuggingFace :: "world \<Rightarrow> buffer \<Rightarrow> state \<Rightarrow> (js_error + string) \<times> state" where
  "speechToTextWithHuggingFace w audioBuffer s = stt_try_models w stt_models audioBuffer s"

subsection \<open>Language detection (lines 225-255)\<close>

definition detectLanguageWithHuggingFace :: "world \<Rightarrow> string \<Rightarrow> state \<Rightarrow> (js_error + string) \<times> state" where
  "detectLanguageWithHuggingFace w txt s =
     (let model = ''papluca/xlm-roberta-base-language-detection'';
          response = detect_post w (trace s) model txt;
          s1 = record_event (DetectCall model txt response) s;
          invalid = Error ''Invalid response format from language detection model.'' None;
          tried =
            (case response of
               Inl error \<Rightarrow> Inl error
             | Inr NoScoreArray \<Rightarrow> Inl invalid
             | Inr (ScoreArray []) \<Rightarrow> Inl invalid
             | Inr (ScoreArray (NullScore # others)) \<Rightarrow>
                 Inl (Error ''Cannot read properties of null (reading 'label')'' None)
             | Inr (ScoreArray (Score None # others)) \<Rightarrow> Inl invalid
             | Inr (ScoreArray (Score (Some label) # others)) \<Rightarrow>
                 if label \<noteq> [] then Inr label else Inl invalid)
      in case tried of
           Inr label \<Rightarrow> (Inr label, s1)
         | Inl error \<Rightarrow>
             (Inl (Error (''Hugging Face language detection failed: '' @ error_detail error) None), s1))"

subsection \<open>Translation (lines 257-334)\<close>

text \<open>The text \<open>doTranslation\<close> finds in a response body, if any.\<close>

fun translation_of :: "translation_data \<Rightarrow> string option" where
  "translation_of NoData = None"
| "translation_of (ArrayData (Some translation_text)) =
     (if translation_text \<noteq> [] then Some translation_text else None)"
| "translation_of (ArrayData None) = None"
| "translation_of (ObjectData (Some translation)) = Some translation"
| "translation_of (ObjectData None) = None"
| "translation_of (StringData str) = (if str \<noteq> [] then Some str else None)"

definition doTranslation :: "world \<Rightarrow> string \<Rightarrow> string \<Rightarrow> state \<Rightarrow> (js_error + string) \<times> state" where
  "doTranslation w inputText model s =
     (let response = translate_post w (trace s) model inputText;
          s1 = record_event (TranslateCall model inputText response) s
      in case response of
           Inl error \<Rightarrow> (Inl error, s1)
         | Inr data \<Rightarrow>
             (case translation_of data of
                Some t \<Rightarrow> (Inr t, s1)
              | None \<Rightarrow> (Inl (Error ''Invalid response format from translation model'' None), s1)))"

definition opus_mt :: "string \<Rightarrow> string \<Rightarrow> string" where
  "opus_mt sourceLang targetLang = ''Helsinki-NLP/opus-mt-'' @ sourceLang @ ''-'' @ targetLang"

definition all_strategies_failed :: js_error where
  "all_strategies_failed = Error ''All translation strategies failed.'' None"

text \<open>Strategy 0 of \<open>translateWithHuggingFace\<close>: Google Translate, for Japanese, if configured.\<close>

definition translate_google :: "world \<Rightarrow> string \<Rightarrow> string \<Rightarrow> string \<Rightarrow> state \<Rightarrow> string option \<times> state" where
  "translate_google w txt sourceLang targetLang s =
     (if (targetLang = ''ja'' \<or> sourceLang = ''ja'') \<and> google_client w then
        (let answer = google_translate w (trace s) txt sourceLang targetLang;
             s1 = record_event (GoogleTranslateCall txt sourceLang targetLang answer) s
         in case answer of
              Inr translation \<Rightarrow> (Some translation, s1)
            | Inl error \<Rightarrow> (None, s1))
      else (None, s))"

text \<open>Strategy 1: the direct model. \<open>None\<close>: it threw, or its translation is the empty string.\<close>

definition translate_direct :: "world \<Rightarrow> string \<Rightarrow> string \<Rightarrow> string \<Rightarrow> state \<Rightarrow> string option \<times> state" where
  "translate_direct w txt sourceLang targetLang s =
     (case doTranslation w txt (opus_mt sourceLang targetLang) s of
        (Inr translatedText, s1) \<Rightarrow>
          if translatedText \<noteq> [] then (Some translatedText, s1) else (None, s1)
      | (Inl error, s1) \<Rightarrow> (None, s1))"

text \<open>Strategy 2: the pivot through English; a leg that throws ends the function with its error.\<close>

definition translate_pivot :: "world \<Rightarrow> string \<Rightarrow> string \<Rightarrow> string \<Rightarrow> state \<Rightarrow> (js_error + string) \<times> state" where
  "translate_pivot w txt sourceLang targetLang s =
     (if sourceLang \<noteq> ''en'' \<and> targetLang \<noteq> ''en'' then
        (case doTranslation w txt (opus_mt sourceLang ''en'') s of
           (Inl error, s1) \<Rightarrow> (Inl error, s1)
         | (Inr textInEnglish, s1) \<Rightarrow>
             if textInEnglish \<noteq> [] then
               (case doTranslation w textInEnglish (opus_mt ''en'' targetLang) s1 of
                  (Inl error, s2) \<Rightarrow> (Inl error, s2)
                | (Inr translatedText, s2) \<Rightarrow>
                    if translatedText \<noteq> [] then (Inr translatedText, s2)
                    else (Inl all_strategies_failed, s2))
             else (Inl all_strategies_failed, s1))
      else (Inl all_strategies_failed, s))"

definition translateWithHuggingFace :: "world \<Rightarrow> string \<Rightarrow> string \<Rightarrow> string \<Rightarrow> state \<Rightarrow> (js_error + string) \<times> state" where
  "translateWithHuggingFace w txt sourceLang targetLang s =
     (case translate_google w txt sourceLang targetLang s of
        (Some translation, s1) \<Rightarrow> (Inr translation, s1)
      | (None, s1) \<Rightarrow>
          (case translate_direct w txt sourceLang targetLang s1 of
             (Some translatedText, s2) \<Rightarrow> (Inr translatedText, s2)
           | (None, s2) \<Rightarrow> translate_pivot w txt sourceLang targetLang s2))"

subsection \<open>Speech synthesis (lines 336-439)\<close>

definition modelMap :: "(string \<times> string) list" where
  "modelMap =
     [(''es'', ''facebook/mms-tts-spa''),
      (''fr'', ''facebook/mms-tts-fra''),
      (''de'', ''facebook/mms-tts-deu''),
      (''ja'', ''facebook/mms-tts-jpn''),
      (''hi'', ''facebook/mms-tts-hin''),
      (''it'', ''facebook/mms-tts-ita''),
      (''ru'', ''facebook/mms-tts-rus''),
      (''zh'', ''facebook/mms-tts-cmn''),
      (''ur'', ''facebook/mms-tts-urd'')]"

text \<open>
  \<open>modelMap\<close> is an object literal, so \<open>modelMap[key]\<close> also finds the members every object
  inherits from \<open>Object.prototype\<close>. They are functions (and \<open>__proto__\<close> the prototype
  itself), all truthy; each is given here by the text a template literal makes of it.
\<close>

definition native_function :: "string \<Rightarrow> string" where
  "native_function name = ''function '' @ name @ ''() { [native code] }''"

definition object_prototype :: "(string \<times> string) list" where
  "object_prototype =
     [(''constructor'', native_function ''Object''),
      (''__defineGetter__'', native_function ''__defineGetter__''),
      (''__defineSetter__'', native_function ''__defineSetter__''),
      (''hasOwnProperty'', native_function ''hasOwnProperty''),
      (''__lookupGetter__'', native_function ''__lookupGetter__''),
      (''__lookupSetter__'', native_function ''__lookupSetter__''),
      (''isPrototypeOf'', native_function ''isPrototypeOf''),
      (''propertyIsEnumerable'', native_function ''propertyIsEnumerable''),
      (''toString'', native_function ''toString''),
      (''valueOf'', native_function ''valueOf''),
      (''__proto__'', ''[object Object]''),
      (''toLocaleString'', native_function ''toLocaleString'')]"

text \<open>\<open>obj[key]\<close>; \<open>None\<close> is \<open>undefined\<close>.\<close>

definition property :: "(string \<times> string) list \<Rightarrow> string \<Rightarrow> string option" where
  "property obj key =
     (case map_of obj key of
        Some v \<Rightarrow> Some v
      | None \<Rightarrow> map_of object_prototype key)"

text \<open>\<open>modelMap[targetLang] || modelMap['es']\<close>\<close>

definition tts_model :: "string \<Rightarrow> string" where
  "tts_model targetLang =
     (case property modelMap targetLang of
        Some model \<Rightarrow> model
      | None \<Rightarrow> (case property modelMap ''es'' of Some model \<Rightarrow> model | None \<Rightarrow> ''undefined''))"

definition fallbackModels :: "string list" where
  "fallbackModels =
     [''suno/bark'', ''espnet/kan-bayashi_ljspeech_vits'', ''microsoft/speecht5_tts'']"

text \<open>
  The loop over the fallback models: a model whose request throws, or whose audio is not
  longer than 100 bytes, is passed over.
\<close>

fun tts_try_fallbacks :: "world \<Rightarrow> string list \<Rightarrow> string \<Rightarrow> state \<Rightarrow> (js_error + buffer) \<times> state" where
  "tts_try_fallbacks w [] txt s = (Inl (Error ''All TTS models failed'' None), s)"
| "tts_try_fallbacks w (fallbackModel # models) txt s =
     (let fallbackResponse = tts_post w (trace s) fallbackModel txt;
          s1 = record_event (TtsCall fallbackModel txt fallbackResponse) s
      in case fallbackResponse of
           Inr data \<Rightarrow>
             if length data > 100 then (Inr data, s1) else tts_try_fallbacks w models txt s1
         | Inl fallbackError \<Rightarrow> tts_try_fallbacks w models txt s1)"

definition textToSpeechWithHuggingFace :: "world \<Rightarrow> string \<Rightarrow> string \<Rightarrow> state \<Rightarrow> (js_error + buffer) \<times> state" where
  "textToSpeechWithHuggingFace w txt targetLang s =
     (let model = tts_model targetLang;
          response = tts_post w (trace s) model txt;
          s1 = record_event (TtsCall model txt response) s
      in case response of
           Inr data \<Rightarrow>
             if length data < 100 then tts_try_fallbacks w fallbackModels txt s1
             else (Inr data, s1)
         | Inl error \<Rightarrow> tts_try_fallbacks w fallbackModels txt s1)"

text \<open>The decimal digits of \<open>Date.now()\<close>, for the name of the temporary file.\<close>

fun decimal :: "nat \<Rightarrow> string" where
  "decimal n =
     (if n < 10 then [char_of (48 + n)]
      else decimal (n div 10) @ [char_of (48 + n mod 10)])"

declare decimal.simps [simp del]

text \<open>
  \<open>join\<close> of the module \<open>path\<close>, on a POSIX system, for two arguments: the arguments
  that are not empty are put together with a separator between them, and the path is
  normalised: empty segments and \<open>.\<close> segments go, a \<open>..\<close> segment takes the segment
  before it with it (above the root of an absolute path it goes; at the head of a relative
  path it stays).
\<close>

fun segments :: "string \<Rightarrow> string list" where
  "segments [] = [[]]"
| "segments (c # cs) =
     (if c = CHR ''/'' then [] # segments cs
      else (case segments cs of
              seg # segs \<Rightarrow> (c # seg) # segs
            | [] \<Rightarrow> [[c]]))"

fun normalizeString :: "bool \<Rightarrow> string list \<Rightarrow> string list \<Rightarrow> string list" where
  "normalizeString allowAboveRoot res [] = rev res"
| "normalizeString allowAboveRoot res (seg # segs) =
     (if seg = [] \<or> seg = ''.'' then normalizeString allowAboveRoot res segs
      else if seg = ''..'' then
        (case res of
           lastSegment # earlier \<Rightarrow>
             if lastSegment \<noteq> ''..'' then normalizeString allowAboveRoot earlier segs
             else normalizeString allowAboveRoot (if allowAboveRoot then seg # res else res) segs
         | [] \<Rightarrow> normalizeString allowAboveRoot (if allowAboveRoot then [seg] else []) segs)
      else normalizeString allowAboveRoot (seg # res) segs)"

fun separated :: "string list \<Rightarrow> string" where
  "separated [] = []"
| "separated [seg] = seg"
| "separated (seg # segs) = seg @ ''/'' @ separated segs"

definition normalize_path :: "string \<Rightarrow> string" where
  "normalize_path path =
     (if path = [] then ''.''
      else
        (let isAbsolute = (hd path = CHR ''/'');
             trailingSeparator = (last path = CHR ''/'');
             body = separated (normalizeString (\<not> isAbsolute) [] (segments path))
         in if body = [] then
              (if isAbsolute then ''/'' else if trailingSeparator then ''./'' else ''.'')
            else (if isAbsolute then ''/'' else []) @ body
                 @ (if trailingSeparator then ''/'' else [])))"

definition join :: "string \<Rightarrow> string \<Rightarrow> string" where
  "join dir name =
     (if dir = [] \<and> name = [] then ''.''
      else normalize_path
             (if dir = [] then name else if name = [] then dir else dir @ ''/'' @ name))"

text \<open>
  \<open>textToSpeechWithGoogle\<close>. A throw of the constructor is caught and rejects the promise;
  an error of \<open>save\<close> rejects it, and the function returns without touching \<open>tmpFile\<close>.
  When \<open>save\<close> never calls back, nothing settles the promise. Otherwise the callback reads
  the file (\<open>readFileSync\<close> throws on a file that does not exist; thrown in the callback,
  that settles nothing), unlinks it and resolves.
\<close>

definition textToSpeechWithGoogle :: "world \<Rightarrow> string \<Rightarrow> string \<Rightarrow> state \<Rightarrow> buffer promise \<times> state" where
  "textToSpeechWithGoogle w txt targetLang s =
     (let tmpFile = join (tmpdir w) (''tts-'' @ decimal (now w (trace s)) @ ''.mp3'');
          outcome = gtts w (trace s) txt targetLang tmpFile;
          s1 = record_event (GttsCall txt targetLang tmpFile outcome) s
      in case outcome of
           ConstructorThrows error \<Rightarrow> (Rejected error, s1)
         | SaveError err left \<Rightarrow>
             (Rejected err,
              (case left of
                 None \<Rightarrow> s1
               | Some written \<Rightarrow> s1\<lparr>files := (files s1)(tmpFile \<mapsto> written)\<rparr>))
         | NeverCallsBack left \<Rightarrow>
             (Pending,
              (case left of
                 None \<Rightarrow> s1
               | Some written \<Rightarrow> s1\<lparr>files := (files s1)(tmpFile \<mapsto> written)\<rparr>))
         | Saved written \<Rightarrow>
             (let s2 = s1\<lparr>files := (files s1)(tmpFile \<mapsto> written)\<rparr>
              in case files s2 tmpFile of
                   None \<Rightarrow> (Pending, s2)
                 | Some audioBuffer \<Rightarrow>
                     (Resolved audioBuffer, s2\<lparr>files := (files s2)(tmpFile := None)\<rparr>)))"

subsection \<open>The pipeline (lines 81-182)\<close>

record pipeline_result =
  audio :: buffer
  text' :: string
  originalText :: string

text \<open>
  The conversion at the head of \<open>processAudioPipeline\<close>: a Buffer as it is, a Blob through
  \<open>arrayBuffer()\<close>, anything else through \<open>Buffer.from\<close>, which throws a TypeError on
  \<open>undefined\<close> and \<open>null\<close>.
\<close>

definition buffer_from_message :: string where
  "buffer_from_message =
     ''The first argument must be of type string or an instance of Buffer, ArrayBuffer, or Array or an Array-like Object.''"

fun audioBuffer_of :: "audio_data \<Rightarrow> js_error + buffer" where
  "audioBuffer_of (BufferValue b) = Inr b"
| "audioBuffer_of (BlobValue b) = Inr b"
| "audioBuffer_of (StringValue str) = Inr str"
| "audioBuffer_of (ArrayValue b) = Inr b"
| "audioBuffer_of Undefined = Inl (Error (buffer_from_message @ '' Received undefined'') None)"
| "audioBuffer_of Null = Inl (Error (buffer_from_message @ '' Received null'') None)"

text \<open>
  The stages of \<open>processAudioPipeline\<close>, one definition for each block of the function.

  Transcription (lines 105-118): on success the text goes to the client at once; on
  failure the mock transcript stands in, and nothing is sent.
\<close>

definition transcribe :: "world \<Rightarrow> buffer \<Rightarrow> socket option \<Rightarrow> state \<Rightarrow> string \<times> state" where
  "transcribe w audioBuffer sock s =
     (case speechToTextWithHuggingFace w audioBuffer s of
        (Inr txt, s1) \<Rightarrow>
          (txt,
           (case sock of
              Some so \<Rightarrow> emit so ''transcription-update'' (OriginalText txt) s1
            | None \<Rightarrow> s1))
      | (Inl sttError, s1) \<Rightarrow> (mockSpeechToText audioBuffer, s1))"

text \<open>
  Detection of the source language (lines 120-136), when it is \<open>'auto'\<close>; a failure is
  thrown on.
\<close>

definition detect :: "world \<Rightarrow> string \<Rightarrow> string \<Rightarrow> state \<Rightarrow> (js_error + string) \<times> state" where
  "detect w sourceLang txt s =
     (if sourceLang = ''auto'' then
        (case (if google_client w then
                 (let answer = google_detect w (trace s) txt
                  in (answer, record_event (GoogleDetectCall txt answer) s))
               else detectLanguageWithHuggingFace w txt s) of
           (Inr language, s1) \<Rightarrow> (Inr language, s1)
         | (Inl detectError, s1) \<Rightarrow>
             (Inl (Error (''Language detection failed: '' @ message detectError
                          @ ''. Please select a source language manually.'') None), s1))
      else (Inr sourceLang, s))"

text \<open>
  Translation (lines 138-152), skipped when source and target are the same; on failure the
  mock.
\<close>

definition translate :: "world \<Rightarrow> string \<Rightarrow> string \<Rightarrow> string \<Rightarrow> state \<Rightarrow> string \<times> state" where
  "translate w txt detectedSourceLang targetLang s =
     (if detectedSourceLang = targetLang then (txt, s)
      else
        (case translateWithHuggingFace w txt detectedSourceLang targetLang s of
           (Inr translatedText, s1) \<Rightarrow> (translatedText, s1)
         | (Inl transError, s1) \<Rightarrow> (mockTranslation txt detectedSourceLang targetLang, s1)))"

text \<open>
  Synthesis (lines 156-173): Google TTS first, then Hugging Face, then the mock. \<open>None\<close>: the promise of
  \<open>textToSpeechWithGoogle\<close> is never settled, and the pipeline waits for ever.
\<close>

definition synthesize :: "world \<Rightarrow> string \<Rightarrow> string \<Rightarrow> state \<Rightarrow> buffer option \<times> state" where
  "synthesize w txt targetLang s =
     (case textToSpeechWithGoogle w txt targetLang s of
        (Resolved translatedAudio, s1) \<Rightarrow> (Some translatedAudio, s1)
      | (Pending, s1) \<Rightarrow> (None, s1)
      | (Rejected error, s1) \<Rightarrow>
          (case textToSpeechWithHuggingFace w txt targetLang s1 of
             (Inr translatedAudio, s2) \<Rightarrow> (Some translatedAudio, s2)
           | (Inl ttsError, s2) \<Rightarrow> (Some (mockTextToSpeech txt targetLang), s2)))"

text \<open>A default parameter: the default stands in for \<open>undefined\<close>.\<close>

definition default_to :: "string \<Rightarrow> string option \<Rightarrow> string" where
  "default_to d arg = (case arg of None \<Rightarrow> d | Some v \<Rightarrow> v)"

definition too_small :: js_error where
  "too_small = Error ''Audio buffer too small - may be empty'' None"

definition processAudioPipeline ::
  "world \<Rightarrow> audio_data \<Rightarrow> string option \<Rightarrow> string option \<Rightarrow> socket option \<Rightarrow> state
     \<Rightarrow> pipeline_result promise \<times> state" where
  "processAudioPipeline w audioData sourceLang_arg targetLang_arg sock s =
     (let sourceLang = default_to ''auto'' sourceLang_arg;
          targetLang = default_to ''es'' targetLang_arg
      in case audioBuffer_of audioData of
           Inl error \<Rightarrow> (Rejected error, s)
         | Inr audioBuffer \<Rightarrow>
             if length audioBuffer < 1000 then (Rejected too_small, s)
             else
               (case transcribe w audioBuffer sock s of
                  (original, s1) \<Rightarrow>
                    (case detect w sourceLang original s1 of
                       (Inl error, s2) \<Rightarrow> (Rejected error, s2)
                     | (Inr detectedSourceLang, s2) \<Rightarrow>
                         (case translate w original detectedSourceLang targetLang s2 of
                            (translatedText, s3) \<Rightarrow>
                              (case synthesize w translatedText targetLang s3 of
                                 (None, s4) \<Rightarrow> (Pending, s4)
                               | (Some translatedAudio, s4) \<Rightarrow>
                                   (Resolved \<lparr>audio = translatedAudio, text' = translatedText,
                                              originalText = original\<rparr>, s4))))))"

subsection \<open>The socket handler (lines 445-460)\<close>

text \<open>
  What an \<open>audio-stream\<close> event comes with: nothing (\<open>data\<close> is \<open>undefined\<close>), \<open>null\<close>, or
  a value of which the handler reads three fields (a field it has not is \<open>undefined\<close>).
\<close>

record audio_stream =
  audio_field :: audio_data
  sourceLang_field :: "string option"
  targetLang_field :: "string option"

datatype stream_data = NoPayload | NullPayload | Payload audio_stream

text \<open>The TypeError of \<open>const { audio: audioData, sourceLang, targetLang } = data\<close> (line 446).\<close>

definition cannot_destructure :: "string \<Rightarrow> js_error" where
  "cannot_destructure what =
     Error (''Cannot destructure property 'audio' of 'data' as it is '' @ what @ ''.'') None"

text \<open>
  \<open>socket.on('audio-stream', async (data) => ...)\<close>: the outcome of the handler's promise,
  which nothing awaits, and the state it leaves. The destructuring of \<open>data\<close> stands before
  the test of the audio and outside the \<open>try\<close> block.
\<close>

definition on_audio_stream :: "world \<Rightarrow> socket \<Rightarrow> stream_data \<Rightarrow> state \<Rightarrow> unit promise \<times> state" where
  "on_audio_stream w sock data s =
     (case data of
        NoPayload \<Rightarrow> (Rejected (cannot_destructure ''undefined''), s)
      | NullPayload \<Rightarrow> (Rejected (cannot_destructure ''null''), s)
      | Payload job \<Rightarrow>
          if \<not> truthy (audio_field job) then
            (Resolved (), emit sock ''error'' (Message ''No audio data received.'') s)
          else
            (case processAudioPipeline w (audio_field job) (sourceLang_field job)
                    (targetLang_field job) (Some sock) s of
               (Resolved result, s1) \<Rightarrow>
                 (Resolved (),
                  emit sock ''translated-audio'' (AudioAndText (audio result) (text' result)) s1)
             | (Rejected error, s1) \<Rightarrow>
                 (Resolved (),
                  emit sock ''error'' (Message (''Pipeline failed: '' @ message error)) s1)
             | (Pending, s1) \<Rightarrow> (Pending, s1)))"

subsection \<open>The client's test of the audio it receives\<close>


section \<open>Observations on traces\<close>

text \<open>
  The requests of a chain of models, each made after the ones before it: what the trace
  gains when every model of the list is tried in turn.
\<close>

fun stt_calls :: "world \<Rightarrow> string list \<Rightarrow> buffer \<Rightarrow> event list \<Rightarrow> event list" where
  "stt_calls w [] audioBuffer h = []"
| "stt_calls w (model # models) audioBuffer h =
     (let e = SttCall model audioBuffer (stt_post w h model audioBuffer)
      in e # stt_calls w models audioBuffer (h @ [e]))"

fun tts_calls :: "world \<Rightarrow> string list \<Rightarrow> string \<Rightarrow> event list \<Rightarrow> event list" where
  "tts_calls w [] txt h = []"
| "tts_calls w (model # models) txt h =
     (let e = TtsCall model txt (tts_post w h model txt)
      in e # tts_calls w models txt (h @ [e]))"

text \<open>The transcript a speech-to-text call has answered with, if it has.\<close>

fun transcript_of :: "event \<Rightarrow> string option" where
  "transcript_of (SttCall model audioBuffer (Inr (Transcript t))) = Some t"
| "transcript_of e = None"

text \<open>The audio a synthesis call has answered with, if it is longer than \<open>n\<close> bytes.\<close>

fun audio_over :: "nat \<Rightarrow> event \<Rightarrow> buffer option" where
  "audio_over n (TtsCall model txt (Inr data)) = (if n < length data then Some data else None)"
| "audio_over n e = None"

text \<open>
  What the Hugging Face synthesis calls of a trace were accepted for: the first call is
  the language's model (accepted from 100 bytes), the others are fallback models
  (accepted above 100 bytes).
\<close>

fun accepted_audio :: "event list \<Rightarrow> buffer option list" where
  "accepted_audio [] = []"
| "accepted_audio (first # fallbacks) = audio_over 99 first # map (audio_over 100) fallbacks"

fun is_translation_call :: "event \<Rightarrow> bool" where
  "is_translation_call (GoogleTranslateCall txt sourceLang targetLang answer) = True"
| "is_translation_call (TranslateCall model txt answer) = True"
| "is_translation_call e = False"

fun is_emit :: "event \<Rightarrow> bool" where
  "is_emit (Emit sock name p) = True"
| "is_emit e = False"

text \<open>The text a translation request has answered with, if it is a non-empty text.\<close>

definition translated :: "js_error + translation_data \<Rightarrow> string option" where
  "translated answer =
     (case answer of
        Inl error \<Rightarrow> None
      | Inr data \<Rightarrow>
          (case translation_of data of
             None \<Rightarrow> None
           | Some t \<Rightarrow> if t \<noteq> [] then Some t else None))"

text \<open>
  What the router throws for a leg of the pivot that has failed, by the answer to the leg's
  request: the error of the request, or the error of \<open>doTranslation\<close> for a response that
  holds no translation, or its own error for a translation that is the empty text.
\<close>

definition leg_error :: "js_error + translation_data \<Rightarrow> js_error" where
  "leg_error answer =
     (case answer of
        Inl error \<Rightarrow> error
      | Inr data \<Rightarrow>
          (case translation_of data of
             None \<Rightarrow> Error ''Invalid response format from translation model'' None
           | Some t \<Rightarrow> Error ''All translation strategies failed.'' None))"

text \<open>A call of Google TTS whose \<open>save\<close> has never called back.\<close>

fun never_called_back :: "event \<Rightarrow> bool" where
  "never_called_back (GttsCall input lang tmpFile (NeverCallsBack left)) = True"
| "never_called_back e = False"

text \<open>In this world the \<open>save\<close> of Google TTS always calls back.\<close>

definition google_tts_calls_back :: "world \<Rightarrow> bool" where
  "google_tts_calls_back w = (\<forall>h t l p left. gtts w h t l p \<noteq> NeverCallsBack left)"

text \<open>Every request for speech-to-text, translation or synthesis fails.\<close>

definition all_providers_fail :: "world \<Rightarrow> bool" where
  "all_providers_fail w =
     ((\<forall>h model b. isl (stt_post w h model b))
      \<and> (\<forall>h model t. isl (translate_post w h model t))
      \<and> (\<forall>h t a b. isl (google_translate w h t a b))
      \<and> (\<forall>h model t. isl (tts_post w h model t))
      \<and> (\<forall>h t l p a. gtts w h t l p \<noteq> Saved a))"

text \<open>
  The language the detection stage of a job comes to, after the job's transcription: the
  declared source language, or for \<open>'auto'\<close> what detection returns or throws.
\<close>

definition detected_language :: "world \<Rightarrow> buffer \<Rightarrow> socket option \<Rightarrow> state \<Rightarrow> string \<Rightarrow> js_error + string" where
  "detected_language w audioBuffer sock s sourceLang =
     (case transcribe w audioBuffer sock s of
        (original, s1) \<Rightarrow> fst (detect w sourceLang original s1))"

text \<open>The models of the translation requests of a trace, in order.\<close>

fun translation_models :: "event list \<Rightarrow> string list" where
  "translation_models [] = []"
| "translation_models (TranslateCall model input answer # es) = model # translation_models es"
| "translation_models (e # es) = translation_models es"

text \<open>The calls of each stage.\<close>

fun is_stt_call :: "event \<Rightarrow> bool" where
  "is_stt_call (SttCall model audioBuffer answer) = True"
| "is_stt_call e = False"

fun is_detect_call :: "event \<Rightarrow> bool" where
  "is_detect_call (DetectCall model input answer) = True"
| "is_detect_call (GoogleDetectCall input answer) = True"
| "is_detect_call e = False"

fun is_synthesis_call :: "event \<Rightarrow> bool" where
  "is_synthesis_call (TtsCall model input answer) = True"
| "is_synthesis_call (GttsCall input lang tmpFile outcome) = True"
| "is_synthesis_call e = False"

section \<open>Sample worlds\<close>

definition unavailable :: js_error where
  "unavailable = Error ''Request failed with status code 503'' None"

text \<open>Every service is down.\<close>

definition failing_world :: world where
  "failing_world =
     \<lparr>google_client = False,
      stt_post = (\<lambda>h model b. Inl unavailable),
      detect_post = (\<lambda>h model t. Inl unavailable),
      translate_post = (\<lambda>h model t. Inl unavailable),
      tts_post = (\<lambda>h model t. Inl unavailable),
      google_detect = (\<lambda>h t. Inl unavailable),
      google_translate = (\<lambda>h t a b. Inl unavailable),
      gtts = (\<lambda>h t l p. SaveError unavailable None),
      now = (\<lambda>h. 0),
      tmpdir = ''/tmp''\<rparr>"

definition silence :: "nat \<Rightarrow> buffer" where
  "silence n = replicate n (CHR 0x00)"

text \<open>
  A world in which the first model of each chain is down: the second speech-to-text model
  hears French, there is no direct model from French to Korean but the two legs through
  English answer, Google TTS fails, having written three bytes, and of the Hugging Face
  synthesis models only \<open>espnet/kan-bayashi_ljspeech_vits\<close> answers.
\<close>

definition patchy_world :: world where
  "patchy_world =
     \<lparr>google_client = False,
      stt_post = (\<lambda>h model b.
        if model = ''openai/whisper-large-v3'' then Inr (Transcript ''bonjour'') else Inl unavailable),
      detect_post = (\<lambda>h model t. Inr (ScoreArray [Score (Some ''fr''), Score (Some ''en'')])),
      translate_post = (\<lambda>h model t.
        if model = ''Helsinki-NLP/opus-mt-fr-en'' then Inr (ArrayData (Some ''hello''))
        else if model = ''Helsinki-NLP/opus-mt-en-ko'' then Inr (ArrayData (Some ''annyeong''))
        else Inl unavailable),
      tts_post = (\<lambda>h model t.
        if model = ''espnet/kan-bayashi_ljspeech_vits'' then Inr (silence 200) else Inl unavailable),
      google_detect = (\<lambda>h t. Inl unavailable),
      google_translate = (\<lambda>h t a b. Inl unavailable),
      gtts = (\<lambda>h t l p. SaveError unavailable (Some ''ID3'')),
      now = (\<lambda>h. 0),
      tmpdir = ''/tmp''\<rparr>"

text \<open>
  Every service is down and Google is out of reach: the HTTP requests fail, and the
  \<open>save\<close> of Google TTS never calls back.
\<close>

definition unreachable_world :: world where
  "unreachable_world = failing_world\<lparr>gtts := (\<lambda>h t l p. NeverCallsBack None)\<rparr>"


definition start :: state where
  "start = \<lparr>trace = [], files = Map.empty\<rparr>"

section \<open>Basic facts\<close>

lemma trace_record_event [simp]: "trace (record_event e s) = trace s @ [e]"
  by (simp add: record_event_def)

lemma files_record_event [simp]: "files (record_event e s) = files s"
  by (simp add: record_event_def)

lemma trace_emit [simp]: "trace (emit sock name p s) = trace s @ [Emit sock name p]"
  by (simp add: emit_def)

lemma files_emit [simp]: "files (emit sock name p s) = files s"
  by (simp add: emit_def)

lemma new_events_append: "trace s' = trace s @ evs \<Longrightarrow> new_events s s' = evs"
  by (simp add: new_events_def)

lemma length_silence [simp]: "length (silence n) = n"
  by (simp add: silence_def)

lemma decimal_0: "decimal 0 = ''0''"
  by code_simp

lemma join_tmp: "join ''/tmp'' ''tts-0.mp3'' = ''/tmp/tts-0.mp3''"
  by (simp add: join_def normalize_path_def)

text \<open>In the root directory the path has one separator.\<close>

lemma join_root: "join ''/'' ''tts-0.mp3'' = ''/tts-0.mp3''"
  by (simp add: join_def normalize_path_def)

section \<open>Missing audio\<close>

text \<open>
  An event with a payload whose \<open>audio\<close> is missing or \<open>null\<close>: the handler emits one
  \<open>error\<close> event with the message "No audio data received." and does nothing else.
\<close>

lemma missing_audio_field_only_error:
  assumes "audio_field job = Undefined \<or> audio_field job = Null"
  shows "on_audio_stream w sock (Payload job) s =
           (Resolved (),
            s\<lparr>trace := trace s @ [Emit sock ''error'' (Message ''No audio data received.'')]\<rparr>)"
  using assms by (auto simp: on_audio_stream_def emit_def record_event_def)

text \<open>An event without a payload, in every world and state: the handler throws, and the state is as it was.\<close>

lemma no_payload_throws:
  "on_audio_stream w sock NoPayload s = (Rejected (cannot_destructure ''undefined''), s)"
  "on_audio_stream w sock NullPayload s = (Rejected (cannot_destructure ''null''), s)"
  by (simp_all add: on_audio_stream_def)

text \<open>
  C8. An \<open>audio-stream\<close> event whose audio is absent because the event has no payload at
  all (\<open>socket.emit('audio-stream')\<close>) gets no \<open>error\<close> event: the handler destructures
  \<open>data\<close> (line 446) before it tests the audio (line 447) and outside the \<open>try\<close> block
  (line 452), so it throws a TypeError, which nothing catches, and the trace gains no
  event. (With a payload that lacks the audio, the \<open>error\<close> event "No audio data
  received." is emitted, and nothing else happens: lemma \<open>missing_audio_field_only_error\<close>.)
\<close>

theorem no_payload_throws_before_the_guard:
  "on_audio_stream failing_world ''socket-1'' NoPayload start =
     (Rejected (Error ''Cannot destructure property 'audio' of 'data' as it is undefined.'' None),
      start)
   \<and> new_events start (snd (on_audio_stream failing_world ''socket-1'' NoPayload start)) = []"
  by (simp add: on_audio_stream_def cannot_destructure_def new_events_def)

section \<open>Audio below the minimum size\<close>

text \<open>
  C2. For an audio payload of fewer than 1000 bytes (also of none), the pipeline throws
  the error "Audio buffer too small - may be empty" and leaves the state as it was: the
  trace has gained no call to any provider.
\<close>

theorem small_audio_rejected_before_any_call:
  assumes "audioBuffer_of audioData = Inr audioBuffer" and "length audioBuffer < 1000"
  shows "processAudioPipeline w audioData sourceLang targetLang sock s =
           (Rejected (Error ''Audio buffer too small - may be empty'' None), s)"
  using assms by (simp add: processAudioPipeline_def too_small_def)

theorem small_audio_rejected_before_any_call_witness:
  "processAudioPipeline failing_world (BufferValue []) (Some ''en'') (Some ''es'')
       (Some ''socket-1'') start
     = (Rejected (Error ''Audio buffer too small - may be empty'' None), start)
   \<and> length (silence 999) < 1000
   \<and> processAudioPipeline failing_world (BufferValue (silence 999)) (Some ''en'') (Some ''es'')
       (Some ''socket-1'') start
     = (Rejected (Error ''Audio buffer too small - may be empty'' None), start)"
  using small_audio_rejected_before_any_call
          [of "BufferValue []" "[]" failing_world "Some ''en''" "Some ''es''" "Some ''socket-1''" start]
        small_audio_rejected_before_any_call
          [of "BufferValue (silence 999)" "silence 999" failing_world "Some ''en''" "Some ''es''"
              "Some ''socket-1''" start]
  by simp

section \<open>Fallback chains\<close>

lemma transcript_of_None:
  "(\<And>t. a \<noteq> Inr (Transcript t)) \<Longrightarrow> transcript_of (SttCall model b a) = None"
proof (cases a)
  case (Inr d)
  assume "\<And>t. a \<noteq> Inr (Transcript t)"
  with Inr show ?thesis by (cases d) simp_all
qed simp

lemma stt_try_models_calls:
  "stt_try_models w models b s = (r, s') \<Longrightarrow>
     files s' = files s \<and>
     (\<exists>n\<le>length models.
        trace s' = trace s @ stt_calls w (take n models) b (trace s)
        \<and> map transcript_of (stt_calls w (take n models) b (trace s)) =
            (case r of Inr t \<Rightarrow> replicate (n - 1) None @ [Some t] | Inl e \<Rightarrow> replicate n None)
        \<and> (case r of Inr t \<Rightarrow> 0 < n
            | Inl e \<Rightarrow> n = length models \<and> e = Error ''All STT models failed.'' None))"
proof (induction models arbitrary: s)
  case Nil
  then show ?case by auto
next
  case (Cons model models)
  define a where "a = stt_post w (trace s) model b"
  define s1 where "s1 = record_event (SttCall model b a) s"
  show ?case
  proof (cases "\<exists>t. a = Inr (Transcript t)")
    case True
    then obtain t where t: "a = Inr (Transcript t)" by blast
    with Cons.prems have "r = Inr t" "s' = s1"
      by (simp_all add: a_def s1_def Let_def)
    then show ?thesis
      using t by (auto simp: a_def s1_def Let_def intro!: exI [of _ "Suc 0"])
  next
    case False
    with Cons.prems have run: "stt_try_models w models b s1 = (r, s')"
      by (auto simp: a_def s1_def Let_def split: sum.splits stt_data.splits)
    from Cons.IH [OF run] obtain n where n: "n \<le> length models"
      "trace s' = trace s1 @ stt_calls w (take n models) b (trace s1)"
      "map transcript_of (stt_calls w (take n models) b (trace s1)) =
         (case r of Inr t \<Rightarrow> replicate (n - 1) None @ [Some t] | Inl e \<Rightarrow> replicate n None)"
      "(case r of Inr t \<Rightarrow> 0 < n
            | Inl e \<Rightarrow> n = length models \<and> e = Error ''All STT models failed.'' None)"
      and f: "files s' = files s1"
      by blast
    have none: "transcript_of (SttCall model b a) = None"
      using False by (intro transcript_of_None) blast
    have "Suc n \<le> length (model # models)" using n(1) by simp
    moreover have "trace s' = trace s @ stt_calls w (take (Suc n) (model # models)) b (trace s)"
      using n(2) by (simp add: s1_def a_def Let_def)
    moreover have "map transcript_of (stt_calls w (take (Suc n) (model # models)) b (trace s)) =
         (case r of Inr t \<Rightarrow> replicate (Suc n - 1) None @ [Some t] | Inl e \<Rightarrow> replicate (Suc n) None)"
      using n(3) n(4) none
      by (cases r; cases n) (simp_all add: s1_def a_def Let_def)
    moreover have "(case r of Inr t \<Rightarrow> 0 < Suc n
            | Inl e \<Rightarrow> Suc n = length (model # models) \<and> e = Error ''All STT models failed.'' None)"
      using n(4) by (cases r) simp_all
    ultimately show ?thesis using f by (auto simp: s1_def)
  qed
qed

lemma audio_over_None:
  "(\<And>data. a = Inr data \<Longrightarrow> \<not> n < length data) \<Longrightarrow> audio_over n (TtsCall model txt a) = None"
  by (cases a) simp_all

lemma tts_try_fallbacks_calls:
  "tts_try_fallbacks w models txt s = (r, s') \<Longrightarrow>
     files s' = files s \<and>
     (\<exists>n\<le>length models.
        trace s' = trace s @ tts_calls w (take n models) txt (trace s)
        \<and> map (audio_over 100) (tts_calls w (take n models) txt (trace s)) =
            (case r of Inr a \<Rightarrow> replicate (n - 1) None @ [Some a] | Inl e \<Rightarrow> replicate n None)
        \<and> (case r of Inr a \<Rightarrow> 0 < n
            | Inl e \<Rightarrow> n = length models \<and> e = Error ''All TTS models failed'' None))"
proof (induction models arbitrary: s)
  case Nil
  then show ?case by auto
next
  case (Cons model models)
  define a where "a = tts_post w (trace s) model txt"
  define s1 where "s1 = record_event (TtsCall model txt a) s"
  show ?case
  proof (cases "\<exists>data. a = Inr data \<and> 100 < length data")
    case True
    then obtain data where d: "a = Inr data" "100 < length data" by blast
    with Cons.prems have "r = Inr data" "s' = s1"
      by (auto simp: a_def s1_def Let_def)
    then show ?thesis
      using d by (auto simp: a_def s1_def Let_def intro!: exI [of _ "Suc 0"])
  next
    case False
    with Cons.prems have run: "tts_try_fallbacks w models txt s1 = (r, s')"
      by (auto simp: a_def s1_def Let_def split: sum.splits if_splits)
    from Cons.IH [OF run] obtain n where n: "n \<le> length models"
      "trace s' = trace s1 @ tts_calls w (take n models) txt (trace s1)"
      "map (audio_over 100) (tts_calls w (take n models) txt (trace s1)) =
         (case r of Inr a \<Rightarrow> replicate (n - 1) None @ [Some a] | Inl e \<Rightarrow> replicate n None)"
      "(case r of Inr a \<Rightarrow> 0 < n
            | Inl e \<Rightarrow> n = length models \<and> e = Error ''All TTS models failed'' None)"
      and f: "files s' = files s1"
      by blast
    have none: "audio_over 100 (TtsCall model txt a) = None"
      using False by (intro audio_over_None) blast
    have "Suc n \<le> length (model # models)" using n(1) by simp
    moreover have "trace s' = trace s @ tts_calls w (take (Suc n) (model # models)) txt (trace s)"
      using n(2) by (simp add: s1_def a_def Let_def)
    moreover have "map (audio_over 100) (tts_calls w (take (Suc n) (model # models)) txt (trace s)) =
         (case r of Inr a \<Rightarrow> replicate (Suc n - 1) None @ [Some a] | Inl e \<Rightarrow> replicate (Suc n) None)"
      using n(3) n(4) none
      by (cases r; cases n) (simp_all add: s1_def a_def Let_def)
    moreover have "(case r of Inr a \<Rightarrow> 0 < Suc n
            | Inl e \<Rightarrow> Suc n = length (model # models) \<and> e = Error ''All TTS models failed'' None)"
      using n(4) by (cases r) simp_all
    ultimately show ?thesis using f by (auto simp: s1_def)
  qed
qed

text \<open>
  C4. A chain of models is tried in order and the first success wins. Of the models of the
  speech-to-text loop, and likewise of the fallback loop of the Hugging Face synthesis,
  exactly the first \<open>n\<close> are requested, each after the ones before it; every request
  but the last has failed; when the loop returns a result, it is the answer to the last
  request (\<open>n > 0\<close>) and no later model is requested; the error "All ... models failed"
  is thrown only when every model of the chain has been requested and has failed.
\<close>

theorem first_success_wins:
  "(stt_try_models w models audioBuffer s = (r, s') \<longrightarrow>
      (\<exists>n\<le>length models.
         trace s' = trace s @ stt_calls w (take n models) audioBuffer (trace s)
         \<and> map transcript_of (new_events s s') =
             (case r of Inr t \<Rightarrow> replicate (n - 1) None @ [Some t] | Inl e \<Rightarrow> replicate n None)
         \<and> (case r of Inr t \<Rightarrow> 0 < n
             | Inl e \<Rightarrow> n = length models \<and> e = Error ''All STT models failed.'' None)))
   \<and> (tts_try_fallbacks w fallbacks words z = (q, z') \<longrightarrow>
      (\<exists>n\<le>length fallbacks.
         trace z' = trace z @ tts_calls w (take n fallbacks) words (trace z)
         \<and> map (audio_over 100) (new_events z z') =
             (case q of Inr a \<Rightarrow> replicate (n - 1) None @ [Some a] | Inl e \<Rightarrow> replicate n None)
         \<and> (case q of Inr a \<Rightarrow> 0 < n
             | Inl e \<Rightarrow> n = length fallbacks \<and> e = Error ''All TTS models failed'' None)))"
proof (intro conjI impI)
  assume "stt_try_models w models audioBuffer s = (r, s')"
  from stt_try_models_calls [OF this] obtain n where n: "n \<le> length models"
    "trace s' = trace s @ stt_calls w (take n models) audioBuffer (trace s)"
    "map transcript_of (stt_calls w (take n models) audioBuffer (trace s)) =
       (case r of Inr t \<Rightarrow> replicate (n - 1) None @ [Some t] | Inl e \<Rightarrow> replicate n None)"
    "(case r of Inr t \<Rightarrow> 0 < n
      | Inl e \<Rightarrow> n = length models \<and> e = Error ''All STT models failed.'' None)"
    by blast
  from n(2) have "new_events s s' = stt_calls w (take n models) audioBuffer (trace s)"
    by (rule new_events_append)
  with n show "\<exists>n\<le>length models.
         trace s' = trace s @ stt_calls w (take n models) audioBuffer (trace s)
         \<and> map transcript_of (new_events s s') =
             (case r of Inr t \<Rightarrow> replicate (n - 1) None @ [Some t] | Inl e \<Rightarrow> replicate n None)
         \<and> (case r of Inr t \<Rightarrow> 0 < n
             | Inl e \<Rightarrow> n = length models \<and> e = Error ''All STT models failed.'' None)"
    by auto
next
  assume "tts_try_fallbacks w fallbacks words z = (q, z')"
  from tts_try_fallbacks_calls [OF this] obtain n where n: "n \<le> length fallbacks"
    "trace z' = trace z @ tts_calls w (take n fallbacks) words (trace z)"
    "map (audio_over 100) (tts_calls w (take n fallbacks) words (trace z)) =
       (case q of Inr a \<Rightarrow> replicate (n - 1) None @ [Some a] | Inl e \<Rightarrow> replicate n None)"
    "(case q of Inr a \<Rightarrow> 0 < n
      | Inl e \<Rightarrow> n = length fallbacks \<and> e = Error ''All TTS models failed'' None)"
    by blast
  from n(2) have "new_events z z' = tts_calls w (take n fallbacks) words (trace z)"
    by (rule new_events_append)
  with n show "\<exists>n\<le>length fallbacks.
         trace z' = trace z @ tts_calls w (take n fallbacks) words (trace z)
         \<and> map (audio_over 100) (new_events z z') =
             (case q of Inr a \<Rightarrow> replicate (n - 1) None @ [Some a] | Inl e \<Rightarrow> replicate n None)
         \<and> (case q of Inr a \<Rightarrow> 0 < n
             | Inl e \<Rightarrow> n = length fallbacks \<and> e = Error ''All TTS models failed'' None)"
    by auto
qed

theorem first_success_wins_witness:
  "stt_try_models patchy_world stt_models (silence 1000) start =
     (Inr ''bonjour'',
      start\<lparr>trace :=
        [SttCall ''openai/whisper-base'' (silence 1000) (Inl unavailable),
         SttCall ''openai/whisper-large-v3'' (silence 1000) (Inr (Transcript ''bonjour''))]\<rparr>)
   \<and> tts_try_fallbacks patchy_world fallbackModels ''hola'' start =
     (Inr (silence 200),
      start\<lparr>trace :=
        [TtsCall ''suno/bark'' ''hola'' (Inl unavailable),
         TtsCall ''espnet/kan-bayashi_ljspeech_vits'' ''hola'' (Inr (silence 200))]\<rparr>)
   \<and> (\<exists>n\<le>length fallbackModels.
         [TtsCall ''suno/bark'' ''hola'' (Inl unavailable),
          TtsCall ''espnet/kan-bayashi_ljspeech_vits'' ''hola'' (Inr (silence 200))]
           = tts_calls patchy_world (take n fallbackModels) ''hola'' []
         \<and> 0 < n)"
proof -
  let ?s = "start\<lparr>trace :=
        [SttCall ''openai/whisper-base'' (silence 1000) (Inl unavailable),
         SttCall ''openai/whisper-large-v3'' (silence 1000) (Inr (Transcript ''bonjour''))]\<rparr>"
  let ?z = "start\<lparr>trace :=
        [TtsCall ''suno/bark'' ''hola'' (Inl unavailable),
         TtsCall ''espnet/kan-bayashi_ljspeech_vits'' ''hola'' (Inr (silence 200))]\<rparr>"
  have stt: "stt_try_models patchy_world stt_models (silence 1000) start = (Inr ''bonjour'', ?s)"
    by (simp add: stt_models_def patchy_world_def start_def record_event_def Let_def)
  have tts: "tts_try_fallbacks patchy_world fallbackModels ''hola'' start = (Inr (silence 200), ?z)"
    by (simp add: fallbackModels_def patchy_world_def start_def record_event_def Let_def)
  from first_success_wins [where w = patchy_world and fallbacks = fallbackModels and words = "''hola''"
      and z = start and q = "Inr (silence 200)" and z' = "?z" and models = stt_models
      and audioBuffer = "silence 1000" and s = start and r = "Inr ''bonjour''" and s' = "?s"] stt tts
  have "\<exists>n\<le>length fallbackModels.
          trace ?z = trace start @ tts_calls patchy_world (take n fallbackModels) ''hola'' (trace start)
          \<and> 0 < n"
    by auto
  then show ?thesis using stt tts by (simp add: start_def)
qed

section \<open>The synthesis chain\<close>

lemma textToSpeechWithHuggingFace_calls:
  assumes "textToSpeechWithHuggingFace w words lang s = (r, s')"
  shows "files s' = files s \<and>
     (\<exists>n. 0 < n \<and> n \<le> Suc (length fallbackModels)
        \<and> trace s' = trace s @ tts_calls w (take n (tts_model lang # fallbackModels)) words (trace s)
        \<and> accepted_audio (tts_calls w (take n (tts_model lang # fallbackModels)) words (trace s)) =
            (case r of Inr a \<Rightarrow> replicate (n - 1) None @ [Some a] | Inl e \<Rightarrow> replicate n None)
        \<and> (case r of Inr a \<Rightarrow> True
            | Inl e \<Rightarrow> n = Suc (length fallbackModels) \<and> e = Error ''All TTS models failed'' None))"
proof -
  define a where "a = tts_post w (trace s) (tts_model lang) words"
  define s1 where "s1 = record_event (TtsCall (tts_model lang) words a) s"
  show ?thesis
  proof (cases "\<exists>data. a = Inr data \<and> 99 < length data")
    case True
    then obtain data where d: "a = Inr data" "99 < length data" by blast
    with assms have "r = Inr data" "s' = s1"
      by (auto simp: textToSpeechWithHuggingFace_def a_def s1_def Let_def)
    then show ?thesis
      using d by (auto simp: a_def s1_def Let_def intro!: exI [of _ "Suc 0"])
  next
    case False
    with assms have run: "tts_try_fallbacks w fallbackModels words s1 = (r, s')"
      by (auto simp: textToSpeechWithHuggingFace_def a_def s1_def Let_def split: sum.splits if_splits)
    from tts_try_fallbacks_calls [OF run] obtain n where n: "n \<le> length fallbackModels"
      "trace s' = trace s1 @ tts_calls w (take n fallbackModels) words (trace s1)"
      "map (audio_over 100) (tts_calls w (take n fallbackModels) words (trace s1)) =
         (case r of Inr a \<Rightarrow> replicate (n - 1) None @ [Some a] | Inl e \<Rightarrow> replicate n None)"
      "(case r of Inr a \<Rightarrow> 0 < n
            | Inl e \<Rightarrow> n = length fallbackModels \<and> e = Error ''All TTS models failed'' None)"
      and f: "files s' = files s1"
      by blast
    have none: "audio_over 99 (TtsCall (tts_model lang) words a) = None"
      using False by (intro audio_over_None) blast
    have "trace s' = trace s @ tts_calls w (take (Suc n) (tts_model lang # fallbackModels)) words (trace s)"
      using n(2) by (simp add: s1_def a_def Let_def)
    moreover have "accepted_audio (tts_calls w (take (Suc n) (tts_model lang # fallbackModels)) words (trace s)) =
         (case r of Inr a \<Rightarrow> replicate (Suc n - 1) None @ [Some a] | Inl e \<Rightarrow> replicate (Suc n) None)"
      using n(3) n(4) none
      by (cases r; cases n) (simp_all add: s1_def a_def Let_def)
    moreover have "(case r of Inr a \<Rightarrow> True
            | Inl e \<Rightarrow> Suc n = Suc (length fallbackModels) \<and> e = Error ''All TTS models failed'' None)"
      using n(4) by (cases r) simp_all
    ultimately show ?thesis using f n(1) by (auto simp: s1_def intro!: exI [of _ "Suc n"])
  qed
qed

lemma tts_model_default:
  assumes "lang \<notin> {''es'', ''fr'', ''de'', ''ja'', ''hi'', ''it'', ''ru'', ''zh'', ''ur''}"
      and "lang \<notin> fst ` set object_prototype"
  shows "tts_model lang = ''facebook/mms-tts-spa''"
proof -
  have "map_of modelMap lang = None"
    using assms(1) by (simp add: modelMap_def)
  moreover have "map_of object_prototype lang = None"
    using assms(2) by (simp add: map_of_eq_None_iff)
  ultimately show ?thesis
    by (simp add: tts_model_def property_def) (simp add: modelMap_def)
qed

text \<open>
  C10. For every target language code that is not one of the nine keys of \<open>modelMap\<close>,
  English among them, the Hugging Face synthesis first requests the Spanish model
  \<open>facebook/mms-tts-spa\<close>, as it would the model of a language it knows, and then, while
  requests fail, the fallback models in their order: the trace gains the requests to the
  first \<open>n > 0\<close> models of the chain that starts with the Spanish model. (No language
  code is the name of a member that every object inherits from \<open>Object.prototype\<close>,
  such as \<open>constructor\<close>; there \<open>modelMap[targetLang]\<close> is the inherited member and not
  \<open>undefined\<close>. The second hypothesis says that \<open>targetLang\<close> is no such name.)
\<close>

theorem unknown_language_uses_spanish_model:
  assumes "targetLang \<notin> {''es'', ''fr'', ''de'', ''ja'', ''hi'', ''it'', ''ru'', ''zh'', ''ur''}"
      and "targetLang \<notin> fst ` set object_prototype"
      and "textToSpeechWithHuggingFace w words targetLang s = (r, s')"
  shows "\<exists>n. 0 < n \<and> n \<le> 4
           \<and> trace s' = trace s @
               tts_calls w
                 (take n [''facebook/mms-tts-spa'', ''suno/bark'',
                          ''espnet/kan-bayashi_ljspeech_vits'', ''microsoft/speecht5_tts''])
                 words (trace s)"
proof -
  have m: "tts_model targetLang = ''facebook/mms-tts-spa''"
    using assms(1,2) by (rule tts_model_default)
  from textToSpeechWithHuggingFace_calls [OF assms(3)] obtain n where
    "0 < n" "n \<le> Suc (length fallbackModels)"
    "trace s' = trace s @ tts_calls w (take n (tts_model targetLang # fallbackModels)) words (trace s)"
    by blast
  then show ?thesis
    unfolding m by (auto simp: fallbackModels_def)
qed

theorem unknown_language_uses_spanish_model_witness:
  "''en'' \<notin> {''es'', ''fr'', ''de'', ''ja'', ''hi'', ''it'', ''ru'', ''zh'', ''ur''}
   \<and> ''en'' \<notin> fst ` set object_prototype
   \<and> textToSpeechWithHuggingFace patchy_world ''hello'' ''en'' start =
       (Inr (silence 200),
        start\<lparr>trace :=
          [TtsCall ''facebook/mms-tts-spa'' ''hello'' (Inl unavailable),
           TtsCall ''suno/bark'' ''hello'' (Inl unavailable),
           TtsCall ''espnet/kan-bayashi_ljspeech_vits'' ''hello'' (Inr (silence 200))]\<rparr>)
   \<and> (\<exists>n. 0 < n \<and> n \<le> 4
         \<and> [TtsCall ''facebook/mms-tts-spa'' ''hello'' (Inl unavailable),
             TtsCall ''suno/bark'' ''hello'' (Inl unavailable),
             TtsCall ''espnet/kan-bayashi_ljspeech_vits'' ''hello'' (Inr (silence 200))]
            = tts_calls patchy_world
                (take n [''facebook/mms-tts-spa'', ''suno/bark'',
                         ''espnet/kan-bayashi_ljspeech_vits'', ''microsoft/speecht5_tts''])
                ''hello'' [])"
proof -
  let ?s = "start\<lparr>trace :=
          [TtsCall ''facebook/mms-tts-spa'' ''hello'' (Inl unavailable),
           TtsCall ''suno/bark'' ''hello'' (Inl unavailable),
           TtsCall ''espnet/kan-bayashi_ljspeech_vits'' ''hello'' (Inr (silence 200))]\<rparr>"
  have keys: "''en'' \<notin> {''es'', ''fr'', ''de'', ''ja'', ''hi'', ''it'', ''ru'', ''zh'', ''ur''}"
    by simp
  have inherited: "''en'' \<notin> fst ` set object_prototype"
    by (simp add: object_prototype_def)
  have m: "tts_model ''en'' = ''facebook/mms-tts-spa''"
    by (simp add: tts_model_def property_def modelMap_def object_prototype_def)
  have run: "textToSpeechWithHuggingFace patchy_world ''hello'' ''en'' start = (Inr (silence 200), ?s)"
    by (simp add: textToSpeechWithHuggingFace_def m fallbackModels_def patchy_world_def start_def
        record_event_def Let_def)
  from unknown_language_uses_spanish_model [OF keys inherited run]
  show ?thesis using keys inherited run by (simp add: start_def)
qed

text \<open>At the name of an inherited member the model is not the Spanish one.\<close>

lemma inherited_member_is_no_model:
  "tts_model ''constructor'' = ''function Object() { [native code] }''"
  by (simp add: tts_model_def property_def modelMap_def object_prototype_def native_function_def)

lemma length_fallbackModels: "length fallbackModels = 3"
  by (simp add: fallbackModels_def)

lemma textToSpeechWithGoogle_outcome:
  assumes "textToSpeechWithGoogle w words lang s = (p, s1)"
      and "tmpFile = join (tmpdir w) (''tts-'' @ decimal (now w (trace s)) @ ''.mp3'')"
      and "outcome = gtts w (trace s) words lang tmpFile"
  shows "trace s1 = trace s @ [GttsCall words lang tmpFile outcome]
         \<and> (case outcome of
               Saved written \<Rightarrow> p = Resolved written
             | NeverCallsBack left \<Rightarrow> p = Pending
             | _ \<Rightarrow> (\<exists>e. p = Rejected e))"
  using assms
  by (auto simp: textToSpeechWithGoogle_def Let_def split: gtts_outcome.splits option.splits)


text \<open>The calls of the synthesis stage, and its result.\<close>

lemma synthesize_calls:
  assumes "synthesize w words lang s = (r, s')"
      and "tmpFile = join (tmpdir w) (''tts-'' @ decimal (now w (trace s)) @ ''.mp3'')"
      and "outcome = gtts w (trace s) words lang tmpFile"
      and "g = GttsCall words lang tmpFile outcome"
      and "hf = (\<lambda>n. tts_calls w (take n (tts_model lang # fallbackModels)) words (trace s @ [g]))"
  shows "\<exists>n\<le>4.
           trace s' = trace s @ g # hf n
           \<and> (case outcome of
                 Saved written \<Rightarrow> n = 0 \<and> r = Some written
               | NeverCallsBack left \<Rightarrow> n = 0 \<and> r = None
               | _ \<Rightarrow>
                   0 < n
                   \<and> ((\<exists>a. accepted_audio (hf n) = replicate (n - 1) None @ [Some a] \<and> r = Some a)
                      \<or> (n = 4 \<and> accepted_audio (hf n) = replicate 4 None
                          \<and> r = Some (mockTextToSpeech words lang))))"
proof -
  obtain p s1 where g1: "textToSpeechWithGoogle w words lang s = (p, s1)"
    by (cases "textToSpeechWithGoogle w words lang s")
  from textToSpeechWithGoogle_outcome [OF g1 assms(2,3)]
  have t1: "trace s1 = trace s @ [g]"
    and oc: "(case outcome of
               Saved written \<Rightarrow> p = Resolved written
             | NeverCallsBack left \<Rightarrow> p = Pending
             | _ \<Rightarrow> (\<exists>e. p = Rejected e))"
    using assms(4) by auto
  consider (saved) written where "outcome = Saved written"
    | (silent) left where "outcome = NeverCallsBack left"
    | (failed) "(\<exists>e. outcome = ConstructorThrows e) \<or> (\<exists>e left. outcome = SaveError e left)"
    by (cases outcome) auto
  then show ?thesis
  proof cases
    case saved
    with oc have "p = Resolved written" by simp
    with assms(1) g1 have "r = Some written" "s' = s1"
      by (auto simp: synthesize_def)
    then show ?thesis using saved t1 assms(5) by (auto intro!: exI [of _ 0])
  next
    case silent
    with oc have "p = Pending" by simp
    with assms(1) g1 have "r = None" "s' = s1"
      by (auto simp: synthesize_def)
    then show ?thesis using silent t1 assms(5) by (auto intro!: exI [of _ 0])
  next
    case failed
    with oc obtain e where pe: "p = Rejected e"
      by auto
    obtain q s2 where h: "textToSpeechWithHuggingFace w words lang s1 = (q, s2)"
      by (cases "textToSpeechWithHuggingFace w words lang s1")
    with assms(1) g1 pe have fin: "s' = s2"
      "r = (case q of Inr a \<Rightarrow> Some a | Inl e \<Rightarrow> Some (mockTextToSpeech words lang))"
      by (auto simp: synthesize_def split: sum.splits)
    from textToSpeechWithHuggingFace_calls [OF h] obtain n where n: "0 < n" "n \<le> Suc (length fallbackModels)"
      "trace s2 = trace s1 @ tts_calls w (take n (tts_model lang # fallbackModels)) words (trace s1)"
      "accepted_audio (tts_calls w (take n (tts_model lang # fallbackModels)) words (trace s1)) =
            (case q of Inr a \<Rightarrow> replicate (n - 1) None @ [Some a] | Inl e \<Rightarrow> replicate n None)"
      "(case q of Inr a \<Rightarrow> True
            | Inl e \<Rightarrow> n = Suc (length fallbackModels) \<and> e = Error ''All TTS models failed'' None)"
      by blast
    have tr: "trace s' = trace s @ g # hf n"
      using n(3) t1 fin(1) assms(5) by simp
    have acc: "(\<exists>a. accepted_audio (hf n) = replicate (n - 1) None @ [Some a] \<and> r = Some a)
                      \<or> (n = 4 \<and> accepted_audio (hf n) = replicate 4 None
                          \<and> r = Some (mockTextToSpeech words lang))"
      using n(4,5) fin(2) t1 length_fallbackModels assms(5)
      by (cases q) simp_all
    have "n \<le> 4" using n(2) by (simp add: length_fallbackModels)
    moreover have "(case outcome of
                 Saved written \<Rightarrow> n = 0 \<and> r = Some written
               | NeverCallsBack left \<Rightarrow> n = 0 \<and> r = None
               | _ \<Rightarrow>
                   0 < n
                   \<and> ((\<exists>a. accepted_audio (hf n) = replicate (n - 1) None @ [Some a] \<and> r = Some a)
                      \<or> (n = 4 \<and> accepted_audio (hf n) = replicate 4 None
                          \<and> r = Some (mockTextToSpeech words lang))))"
      using failed acc n(1) by auto
    ultimately show ?thesis
      using tr by (auto intro!: exI [of _ n])
  qed
qed




section \<open>The translation router\<close>

lemma new_events_same [simp]: "new_events s s = []"
  by (simp add: new_events_def)

lemma new_events_record [simp]: "new_events s (record_event e s) = [e]"
  by (simp add: new_events_def)

lemma new_events_record2 [simp]: "new_events s (record_event e' (record_event e s)) = [e, e']"
  by (simp add: new_events_def)

lemma doTranslation_run:
  "doTranslation w input model s =
     ((case translate_post w (trace s) model input of
         Inl error \<Rightarrow> Inl error
       | Inr data \<Rightarrow>
           (case translation_of data of
              Some t \<Rightarrow> Inr t
            | None \<Rightarrow> Inl (Error ''Invalid response format from translation model'' None))),
      record_event (TranslateCall model input (translate_post w (trace s) model input)) s)"
  by (simp add: doTranslation_def Let_def split: sum.splits option.splits)

text \<open>
  Whether the caller of \<open>doTranslation\<close> goes on with a text: it has one, and not the empty
  one. Otherwise \<open>doTranslation\<close> has thrown, or it has returned the empty text.
\<close>

lemma doTranslation_translated:
  assumes "doTranslation w input model s = (r, s1)"
      and "answer = translate_post w (trace s) model input"
  shows "s1 = record_event (TranslateCall model input answer) s
     \<and> (case translated answer of
          Some t \<Rightarrow> r = Inr t \<and> t \<noteq> []
        | None \<Rightarrow>
            (r = Inr [] \<and> leg_error answer = all_strategies_failed) \<or> r = Inl (leg_error answer))"
  using assms
  by (auto simp: doTranslation_run translated_def leg_error_def all_strategies_failed_def
      split: sum.splits option.splits)

lemma no_pivot_with_english:
  assumes "sourceLang = ''en'' \<or> targetLang = ''en''"
      and "translateWithHuggingFace w words sourceLang targetLang z = (q, z')"
  shows "prefix (translation_models (new_events z z')) [opus_mt sourceLang targetLang]"
proof -
  obtain g z1 where g: "translate_google w words sourceLang targetLang z = (g, z1)"
    by (cases "translate_google w words sourceLang targetLang z")
  then have z1: "z1 = z \<or> (\<exists>answer. z1 = record_event (GoogleTranslateCall words sourceLang targetLang answer) z)"
    by (auto simp: translate_google_def Let_def split: if_splits sum.splits)
  show ?thesis
  proof (cases g)
    case (Some translation)
    with assms(2) g have "z' = z1" by (simp add: translateWithHuggingFace_def)
    with z1 show ?thesis by auto
  next
    case None
    obtain d z2 where d: "translate_direct w words sourceLang targetLang z1 = (d, z2)"
      by (cases "translate_direct w words sourceLang targetLang z1")
    then have z2: "z2 = record_event (TranslateCall (opus_mt sourceLang targetLang) words
        (translate_post w (trace z1) (opus_mt sourceLang targetLang) words)) z1"
      by (auto simp: translate_direct_def doTranslation_run split: sum.splits if_splits)
    have "translate_pivot w words sourceLang targetLang z2 = (Inl all_strategies_failed, z2)"
      using assms(1) by (auto simp: translate_pivot_def)
    with assms(2) g None d have "z' = z2"
      by (auto simp: translateWithHuggingFace_def split: option.splits)
    with z1 z2 show ?thesis by auto
  qed
qed

lemma pivot_fr_ko:
  assumes direct: "direct = translate_post w (trace s) ''Helsinki-NLP/opus-mt-fr-ko'' words"
      and "translated direct = None"
      and "e0 = TranslateCall ''Helsinki-NLP/opus-mt-fr-ko'' words direct"
      and "leg1 = translate_post w (trace s @ [e0]) ''Helsinki-NLP/opus-mt-fr-en'' words"
      and "e1 = TranslateCall ''Helsinki-NLP/opus-mt-fr-en'' words leg1"
      and "translateWithHuggingFace w words ''fr'' ''ko'' s = (r, s')"
  shows "case translated leg1 of
           None \<Rightarrow> r = Inl (leg_error leg1) \<and> trace s' = trace s @ [e0, e1]
         | Some english \<Rightarrow>
             (let leg2 = translate_post w (trace s @ [e0, e1]) ''Helsinki-NLP/opus-mt-en-ko'' english;
                  e2 = TranslateCall ''Helsinki-NLP/opus-mt-en-ko'' english leg2
              in trace s' = trace s @ [e0, e1, e2]
                 \<and> (case translated leg2 of
                      None \<Rightarrow> r = Inl (leg_error leg2)
                    | Some korean \<Rightarrow> r = Inr korean))"
proof -
  have g: "translate_google w words ''fr'' ''ko'' s = (None, s)"
    by (simp add: translate_google_def)
  obtain r0 s1 where d0: "doTranslation w words (opus_mt ''fr'' ''ko'') s = (r0, s1)"
    by (cases "doTranslation w words (opus_mt ''fr'' ''ko'') s")
  have name0: "opus_mt ''fr'' ''ko'' = ''Helsinki-NLP/opus-mt-fr-ko''"
    and name1: "opus_mt ''fr'' ''en'' = ''Helsinki-NLP/opus-mt-fr-en''"
    and name2: "opus_mt ''en'' ''ko'' = ''Helsinki-NLP/opus-mt-en-ko''"
    by (simp_all add: opus_mt_def)
  from doTranslation_translated [OF d0 assms(1) [folded name0]] assms(2,3)
  have s1: "s1 = record_event e0 s" and r0: "r0 = Inr [] \<or> isl r0"
    by (auto simp: name0)
  from d0 r0 have dir: "translate_direct w words ''fr'' ''ko'' s = (None, s1)"
    by (auto simp: translate_direct_def split: sum.splits)
  obtain r1 s2 where d1: "doTranslation w words (opus_mt ''fr'' ''en'') s1 = (r1, s2)"
    by (cases "doTranslation w words (opus_mt ''fr'' ''en'') s1")
  have a1: "leg1 = translate_post w (trace s1) (opus_mt ''fr'' ''en'') words"
    using assms(4) s1 by (simp add: name1)
  from doTranslation_translated [OF d1 a1] assms(5)
  have s2: "s2 = record_event e1 s1"
    and r1: "(case translated leg1 of
                Some t \<Rightarrow> r1 = Inr t \<and> t \<noteq> []
              | None \<Rightarrow> (r1 = Inr [] \<and> leg_error leg1 = all_strategies_failed)
                         \<or> r1 = Inl (leg_error leg1))"
    by (simp_all add: name1)
  have whole: "translateWithHuggingFace w words ''fr'' ''ko'' s = translate_pivot w words ''fr'' ''ko'' s1"
    by (simp add: translateWithHuggingFace_def g dir)
  show ?thesis
  proof (cases "translated leg1")
    case None
    with r1 have "(r1 = Inr [] \<and> leg_error leg1 = all_strategies_failed) \<or> r1 = Inl (leg_error leg1)"
      by simp
    with d1 have "translate_pivot w words ''fr'' ''ko'' s1 = (Inl (leg_error leg1), s2)"
      by (auto simp: translate_pivot_def)
    with whole assms(6) have "r = Inl (leg_error leg1)" "s' = s2" by simp_all
    with None s1 s2 show ?thesis by simp
  next
    case (Some english)
    with r1 have r1': "r1 = Inr english" "english \<noteq> []" by simp_all
    obtain r2 s3 where d2: "doTranslation w english (opus_mt ''en'' ''ko'') s2 = (r2, s3)"
      by (cases "doTranslation w english (opus_mt ''en'' ''ko'') s2")
    define leg2 where "leg2 = translate_post w (trace s @ [e0, e1]) ''Helsinki-NLP/opus-mt-en-ko'' english"
    define e2 where "e2 = TranslateCall ''Helsinki-NLP/opus-mt-en-ko'' english leg2"
    have a2: "leg2 = translate_post w (trace s2) (opus_mt ''en'' ''ko'') english"
      using s1 s2 by (simp add: name2 leg2_def)
    from doTranslation_translated [OF d2 a2]
    have s3: "s3 = record_event e2 s2"
      and r2: "(case translated leg2 of
                  Some t \<Rightarrow> r2 = Inr t \<and> t \<noteq> []
                | None \<Rightarrow> (r2 = Inr [] \<and> leg_error leg2 = all_strategies_failed)
                           \<or> r2 = Inl (leg_error leg2))"
      by (simp_all add: name2 e2_def)
    from d1 d2 r1' have piv: "translate_pivot w words ''fr'' ''ko'' s1 =
        (case r2 of Inl error \<Rightarrow> (Inl error, s3)
         | Inr t \<Rightarrow> if t \<noteq> [] then (Inr t, s3) else (Inl all_strategies_failed, s3))"
      by (simp add: translate_pivot_def)
    have tr: "trace s' = trace s @ [e0, e1, e2]"
      using whole assms(6) piv s1 s2 s3 by (auto split: sum.splits if_splits)
    have res: "(case translated leg2 of None \<Rightarrow> r = Inl (leg_error leg2) | Some korean \<Rightarrow> r = Inr korean)"
      using whole assms(6) piv r2 by (auto split: sum.splits if_splits option.splits)
    from tr res Some show ?thesis
      unfolding leg2_def e2_def by (simp add: Let_def)
  qed
qed

text \<open>
  C5, as the code has it. From French to Korean, when the request to the direct model
  \<open>Helsinki-NLP/opus-mt-fr-ko\<close> fails (it throws, or answers without a non-empty text),
  the router requests \<open>opus-mt-fr-en\<close> with the text and then \<open>opus-mt-en-ko\<close> with the
  English text the first leg answered, and returns what the second leg answers. If the
  first leg fails, the router throws without requesting the second; if the second leg
  fails, the router throws. What it throws is \<open>leg_error\<close> of the failed leg's answer:
  the error of the request when the request has thrown, "Invalid response format from
  translation model" when the response holds no translation, and "All translation
  strategies failed." only when the leg has answered with the empty text. And when the
  source or the target is English, no leg is requested: the only model requested, if any,
  is the direct one.
\<close>

theorem pivot_through_english:
  assumes "direct = translate_post w (trace s) ''Helsinki-NLP/opus-mt-fr-ko'' words"
      and "translated direct = None"
      and "e0 = TranslateCall ''Helsinki-NLP/opus-mt-fr-ko'' words direct"
      and "leg1 = translate_post w (trace s @ [e0]) ''Helsinki-NLP/opus-mt-fr-en'' words"
      and "e1 = TranslateCall ''Helsinki-NLP/opus-mt-fr-en'' words leg1"
      and "translateWithHuggingFace w words ''fr'' ''ko'' s = (r, s')"
  shows "(case translated leg1 of
            None \<Rightarrow> r = Inl (leg_error leg1) \<and> trace s' = trace s @ [e0, e1]
          | Some english \<Rightarrow>
              (let leg2 = translate_post w (trace s @ [e0, e1]) ''Helsinki-NLP/opus-mt-en-ko'' english;
                   e2 = TranslateCall ''Helsinki-NLP/opus-mt-en-ko'' english leg2
               in trace s' = trace s @ [e0, e1, e2]
                  \<and> (case translated leg2 of
                       None \<Rightarrow> r = Inl (leg_error leg2)
                     | Some korean \<Rightarrow> r = Inr korean)))
         \<and> (\<forall>sourceLang targetLang z q z'.
               (sourceLang = ''en'' \<or> targetLang = ''en'') \<longrightarrow>
               translateWithHuggingFace w words sourceLang targetLang z = (q, z') \<longrightarrow>
               prefix (translation_models (new_events z z')) [opus_mt sourceLang targetLang])"
  using pivot_fr_ko [OF assms] no_pivot_with_english by blast

theorem pivot_through_english_witness:
  "translated (translate_post patchy_world [] ''Helsinki-NLP/opus-mt-fr-ko'' ''bonjour'') = None
   \<and> translateWithHuggingFace patchy_world ''bonjour'' ''fr'' ''ko'' start =
       (Inr ''annyeong'',
        start\<lparr>trace :=
          [TranslateCall ''Helsinki-NLP/opus-mt-fr-ko'' ''bonjour'' (Inl unavailable),
           TranslateCall ''Helsinki-NLP/opus-mt-fr-en'' ''bonjour'' (Inr (ArrayData (Some ''hello''))),
           TranslateCall ''Helsinki-NLP/opus-mt-en-ko'' ''hello'' (Inr (ArrayData (Some ''annyeong'')))]\<rparr>)
   \<and> translated (translate_post patchy_world
         [TranslateCall ''Helsinki-NLP/opus-mt-fr-ko'' ''bonjour'' (Inl unavailable)]
         ''Helsinki-NLP/opus-mt-fr-en'' ''bonjour'') = Some ''hello''
   \<and> translated (translate_post patchy_world
         [TranslateCall ''Helsinki-NLP/opus-mt-fr-ko'' ''bonjour'' (Inl unavailable),
          TranslateCall ''Helsinki-NLP/opus-mt-fr-en'' ''bonjour'' (Inr (ArrayData (Some ''hello'')))]
         ''Helsinki-NLP/opus-mt-en-ko'' ''hello'') = Some ''annyeong''
   \<and> prefix (translation_models (new_events start
         (snd (translateWithHuggingFace patchy_world ''bonjour'' ''fr'' ''en'' start))))
         [opus_mt ''fr'' ''en'']
   \<and> translated (translate_post failing_world [] ''Helsinki-NLP/opus-mt-fr-ko'' ''bonjour'') = None
   \<and> translated (translate_post failing_world
         [TranslateCall ''Helsinki-NLP/opus-mt-fr-ko'' ''bonjour'' (Inl unavailable)]
         ''Helsinki-NLP/opus-mt-fr-en'' ''bonjour'') = None
   \<and> fst (translateWithHuggingFace failing_world ''bonjour'' ''fr'' ''ko'' start)
       = Inl (leg_error (Inl unavailable))"
proof -
  let ?s = "start\<lparr>trace :=
          [TranslateCall ''Helsinki-NLP/opus-mt-fr-ko'' ''bonjour'' (Inl unavailable),
           TranslateCall ''Helsinki-NLP/opus-mt-fr-en'' ''bonjour'' (Inr (ArrayData (Some ''hello''))),
           TranslateCall ''Helsinki-NLP/opus-mt-en-ko'' ''hello'' (Inr (ArrayData (Some ''annyeong'')))]\<rparr>"
  have direct: "Inl unavailable = translate_post patchy_world (trace start) ''Helsinki-NLP/opus-mt-fr-ko'' ''bonjour''"
    by (simp add: patchy_world_def)
  have failed: "translated (Inl unavailable :: js_error + translation_data) = None"
    by (simp add: translated_def)
  have leg1: "Inr (ArrayData (Some ''hello'')) = translate_post patchy_world
      (trace start @ [TranslateCall ''Helsinki-NLP/opus-mt-fr-ko'' ''bonjour'' (Inl unavailable)])
      ''Helsinki-NLP/opus-mt-fr-en'' ''bonjour''"
    by (simp add: patchy_world_def)
  have run: "translateWithHuggingFace patchy_world ''bonjour'' ''fr'' ''ko'' start = (Inr ''annyeong'', ?s)"
    by (simp add: translateWithHuggingFace_def translate_google_def translate_direct_def
        translate_pivot_def doTranslation_run opus_mt_def patchy_world_def start_def record_event_def)
  obtain q z' where en: "translateWithHuggingFace patchy_world ''bonjour'' ''fr'' ''en'' start = (q, z')"
    by (cases "translateWithHuggingFace patchy_world ''bonjour'' ''fr'' ''en'' start")
  from pivot_through_english [OF direct failed refl leg1 refl run] en
  have "prefix (translation_models (new_events start z')) [opus_mt ''fr'' ''en'']"
    by blast
  with en have english: "prefix (translation_models (new_events start
         (snd (translateWithHuggingFace patchy_world ''bonjour'' ''fr'' ''en'' start))))
         [opus_mt ''fr'' ''en'']"
    by simp
  have direct': "Inl unavailable = translate_post failing_world (trace start) ''Helsinki-NLP/opus-mt-fr-ko'' ''bonjour''"
    by (simp add: failing_world_def)
  have leg1': "Inl unavailable = translate_post failing_world
      (trace start @ [TranslateCall ''Helsinki-NLP/opus-mt-fr-ko'' ''bonjour'' (Inl unavailable)])
      ''Helsinki-NLP/opus-mt-fr-en'' ''bonjour''"
    by (simp add: failing_world_def)
  obtain r s' where run': "translateWithHuggingFace failing_world ''bonjour'' ''fr'' ''ko'' start = (r, s')"
    by (cases "translateWithHuggingFace failing_world ''bonjour'' ''fr'' ''ko'' start")
  from pivot_through_english [OF direct' failed refl leg1' refl run']
  have "r = Inl (leg_error (Inl unavailable))"
    by (simp add: failed)
  with run' have thrown: "fst (translateWithHuggingFace failing_world ''bonjour'' ''fr'' ''ko'' start)
       = Inl (leg_error (Inl unavailable))"
    by simp
  show ?thesis
    using run english thrown by (simp add: translated_def patchy_world_def failing_world_def)
qed

text \<open>
  C5 as stated fails: when the request of a leg throws, what the router throws is the
  error of that request and not its own "All translation strategies failed.". With every
  service down, the first leg's request fails with status 503, and that is the error of
  the router; the second leg is not requested.
\<close>

theorem failed_leg_throws_its_own_error:
  "translateWithHuggingFace failing_world ''bonjour'' ''fr'' ''ko'' start =
     (Inl (Error ''Request failed with status code 503'' None),
      \<lparr>trace =
         [TranslateCall ''Helsinki-NLP/opus-mt-fr-ko'' ''bonjour''
            (Inl (Error ''Request failed with status code 503'' None)),
          TranslateCall ''Helsinki-NLP/opus-mt-fr-en'' ''bonjour''
            (Inl (Error ''Request failed with status code 503'' None))],
       files = Map.empty\<rparr>)"
  by (simp add: translateWithHuggingFace_def translate_google_def translate_direct_def
      translate_pivot_def doTranslation_run opus_mt_def failing_world_def unavailable_def
      start_def record_event_def)

section \<open>The stages of the pipeline\<close>

lemma stt_calls_are_stt: "list_all is_stt_call (stt_calls w models b h)"
  by (induction models arbitrary: h) (simp_all add: Let_def)

lemma tts_calls_are_synthesis: "list_all is_synthesis_call (tts_calls w models words h)"
  by (induction models arbitrary: h) (simp_all add: Let_def)

lemma speechToText_trace:
  assumes "speechToTextWithHuggingFace w b s = (r, s1)"
  shows "files s1 = files s \<and> (\<exists>calls. trace s1 = trace s @ calls \<and> list_all is_stt_call calls)"
  using stt_try_models_calls [of w stt_models b s r s1] assms stt_calls_are_stt
  unfolding speechToTextWithHuggingFace_def by blast

lemma transcribe_trace:
  assumes "transcribe w b sock s = (original, s1)"
  shows "files s1 = files s \<and>
     (\<exists>calls. list_all is_stt_call calls \<and>
        (case fst (speechToTextWithHuggingFace w b s) of
           Inr transcript \<Rightarrow>
             original = transcript
             \<and> trace s1 = trace s @ calls @
                 (case sock of Some so \<Rightarrow> [Emit so ''transcription-update'' (OriginalText transcript)]
                  | None \<Rightarrow> [])
         | Inl e \<Rightarrow> original = mockSpeechToText b \<and> trace s1 = trace s @ calls))"
proof -
  obtain r s0 where st: "speechToTextWithHuggingFace w b s = (r, s0)"
    by (cases "speechToTextWithHuggingFace w b s")
  from speechToText_trace [OF st] obtain calls where
    c: "files s0 = files s" "trace s0 = trace s @ calls" "list_all is_stt_call calls"
    by blast
  show ?thesis
    using assms st c
    by (cases r; cases sock) (auto simp: transcribe_def)
qed

lemma detect_trace:
  assumes "detect w sourceLang original s = (r, s1)"
  shows "files s1 = files s \<and> (\<exists>calls. trace s1 = trace s @ calls \<and> list_all is_detect_call calls)
         \<and> (sourceLang \<noteq> ''auto'' \<longrightarrow> r = Inr sourceLang \<and> s1 = s)"
  using assms
  by (auto simp: detect_def detectLanguageWithHuggingFace_def Let_def
      split: if_splits sum.splits prod.splits)

lemma translateWithHuggingFace_trace:
  assumes "translateWithHuggingFace w words sourceLang targetLang s = (r, s')"
  shows "files s' = files s \<and> (\<exists>calls. trace s' = trace s @ calls \<and> list_all is_translation_call calls)"
proof -
  obtain g s1 where g: "translate_google w words sourceLang targetLang s = (g, s1)"
    by (cases "translate_google w words sourceLang targetLang s")
  then have 1: "files s1 = files s \<and> (\<exists>calls. trace s1 = trace s @ calls \<and> list_all is_translation_call calls)"
    by (auto simp: translate_google_def Let_def split: if_splits sum.splits)
  obtain d s2 where d: "translate_direct w words sourceLang targetLang s1 = (d, s2)"
    by (cases "translate_direct w words sourceLang targetLang s1")
  then have 2: "files s2 = files s1 \<and> (\<exists>calls. trace s2 = trace s1 @ calls \<and> list_all is_translation_call calls)"
    by (auto simp: translate_direct_def doTranslation_run split: sum.splits if_splits)
  obtain p s3 where p: "translate_pivot w words sourceLang targetLang s2 = (p, s3)"
    by (cases "translate_pivot w words sourceLang targetLang s2")
  then have 3: "files s3 = files s2 \<and> (\<exists>calls. trace s3 = trace s2 @ calls \<and> list_all is_translation_call calls)"
    by (auto simp: translate_pivot_def doTranslation_run split: sum.splits if_splits)
  from assms g d p have "s' = s1 \<or> s' = s2 \<or> s' = s3"
    by (auto simp: translateWithHuggingFace_def split: option.splits)
  with 1 2 3 show ?thesis
    by (elim disjE) (auto simp: list_all_append)
qed

lemma translate_trace:
  assumes "translate w original detected targetLang s = (translatedText, s1)"
  shows "files s1 = files s \<and> (\<exists>calls. trace s1 = trace s @ calls \<and> list_all is_translation_call calls)
         \<and> (detected = targetLang \<longrightarrow> translatedText = original \<and> s1 = s)"
proof (cases "detected = targetLang")
  case True
  with assms show ?thesis by (simp add: translate_def)
next
  case False
  obtain r s0 where t: "translateWithHuggingFace w original detected targetLang s = (r, s0)"
    by (cases "translateWithHuggingFace w original detected targetLang s")
  with assms False have "s1 = s0" by (auto simp: translate_def split: sum.splits)
  with translateWithHuggingFace_trace [OF t] False show ?thesis by simp
qed

lemma tts_calls_called_back: "\<not> list_ex never_called_back (tts_calls w models words h)"
  by (induction models arbitrary: h) (simp_all add: Let_def)

text \<open>The synthesis stage does not return just when the \<open>save\<close> of Google TTS has not called back.\<close>

lemma synthesize_trace:
  assumes "synthesize w words targetLang s = (r, s2)"
  shows "\<exists>calls. trace s2 = trace s @ calls \<and> list_all is_synthesis_call calls
           \<and> (list_ex never_called_back calls \<longleftrightarrow> r = None)"
proof -
  define tmpFile where "tmpFile = join (tmpdir w) (''tts-'' @ decimal (now w (trace s)) @ ''.mp3'')"
  define outcome where "outcome = gtts w (trace s) words targetLang tmpFile"
  define g where "g = GttsCall words targetLang tmpFile outcome"
  define hf where
    "hf = (\<lambda>n. tts_calls w (take n (tts_model targetLang # fallbackModels)) words (trace s @ [g]))"
  from synthesize_calls [OF assms tmpFile_def outcome_def g_def hf_def] obtain n where
    tr: "trace s2 = trace s @ g # hf n"
    and r: "(case outcome of
                 Saved written \<Rightarrow> n = 0 \<and> r = Some written
               | NeverCallsBack left \<Rightarrow> n = 0 \<and> r = None
               | _ \<Rightarrow>
                   0 < n
                   \<and> ((\<exists>a. accepted_audio (hf n) = replicate (n - 1) None @ [Some a] \<and> r = Some a)
                      \<or> (n = 4 \<and> accepted_audio (hf n) = replicate 4 None
                          \<and> r = Some (mockTextToSpeech words targetLang))))"
    by blast
  have "list_all is_synthesis_call (g # hf n)"
    using tts_calls_are_synthesis by (simp add: g_def hf_def)
  moreover have "list_ex never_called_back (g # hf n) \<longleftrightarrow> never_called_back g"
    using tts_calls_called_back by (simp add: hf_def)
  moreover have "never_called_back g \<longleftrightarrow> r = None"
    using r by (cases outcome) (auto simp: g_def)
  ultimately show ?thesis using tr by blast
qed

lemma synthesize_returns:
  assumes "google_tts_calls_back w" and "synthesize w words targetLang s = (r, s2)"
  shows "\<exists>translatedAudio. r = Some translatedAudio"
proof -
  define tmpFile where "tmpFile = join (tmpdir w) (''tts-'' @ decimal (now w (trace s)) @ ''.mp3'')"
  define outcome where "outcome = gtts w (trace s) words targetLang tmpFile"
  from assms(1) have "\<And>left. outcome \<noteq> NeverCallsBack left"
    by (simp add: google_tts_calls_back_def outcome_def)
  with synthesize_calls [OF assms(2) tmpFile_def outcome_def refl refl] show ?thesis
    by (cases outcome) auto
qed

lemma stage_events [simp]:
  "is_stt_call e \<Longrightarrow> \<not> is_emit e"
  "is_stt_call e \<Longrightarrow> \<not> is_translation_call e"
  "is_stt_call e \<Longrightarrow> \<not> never_called_back e"
  "is_detect_call e \<Longrightarrow> \<not> is_emit e"
  "is_detect_call e \<Longrightarrow> \<not> is_translation_call e"
  "is_detect_call e \<Longrightarrow> \<not> never_called_back e"
  "is_translation_call e \<Longrightarrow> \<not> is_emit e"
  "is_translation_call e \<Longrightarrow> \<not> never_called_back e"
  "is_synthesis_call e \<Longrightarrow> \<not> is_emit e"
  "is_synthesis_call e \<Longrightarrow> \<not> is_translation_call e"
  "is_emit e \<Longrightarrow> \<not> never_called_back e"
  by (cases e; simp)+

lemma none_of: "list_all P xs \<Longrightarrow> (\<And>x. P x \<Longrightarrow> \<not> Q x) \<Longrightarrow> \<not> list_ex Q xs"
  by (induction xs) auto

lemma filter_none: "list_all P xs \<Longrightarrow> (\<And>x. P x \<Longrightarrow> \<not> Q x) \<Longrightarrow> filter Q xs = []"
  by (induction xs) auto

text \<open>A run of the pipeline on valid audio, stage by stage.\<close>

lemma pipeline_run:
  assumes "audioBuffer_of audioData = Inr b" and "1000 \<le> length b"
      and "transcribe w b sock s = (original, s1)"
      and "detect w (default_to ''auto'' sourceLang) original s1 = (d, s2)"
  shows "case d of
           Inl e \<Rightarrow> processAudioPipeline w audioData sourceLang targetLang sock s = (Rejected e, s2)
         | Inr detected \<Rightarrow>
             (\<exists>translatedText r s3 s4.
                translate w original detected (default_to ''es'' targetLang) s2 = (translatedText, s3)
                \<and> synthesize w translatedText (default_to ''es'' targetLang) s3 = (r, s4)
                \<and> processAudioPipeline w audioData sourceLang targetLang sock s =
                    ((case r of
                        None \<Rightarrow> Pending
                      | Some translatedAudio \<Rightarrow>
                          Resolved \<lparr>audio = translatedAudio, text' = translatedText,
                                     originalText = original\<rparr>), s4))"
proof (cases d)
  case (Inl e)
  with assms show ?thesis by (simp add: processAudioPipeline_def)
next
  case (Inr detected)
  obtain translatedText s3 where t: "translate w original detected (default_to ''es'' targetLang) s2 = (translatedText, s3)"
    by (cases "translate w original detected (default_to ''es'' targetLang) s2")
  obtain r s4 where y: "synthesize w translatedText (default_to ''es'' targetLang) s3 = (r, s4)"
    by (cases "synthesize w translatedText (default_to ''es'' targetLang) s3")
  from assms Inr t y show ?thesis
    by (cases r) (simp_all add: processAudioPipeline_def)
qed

text \<open>The definitions that evaluate a run of the pipeline in a sample world.\<close>

lemmas run_defs =
  processAudioPipeline_def default_to_def transcribe_def
  speechToTextWithHuggingFace_def stt_models_def detect_def detectLanguageWithHuggingFace_def
  translate_def translateWithHuggingFace_def translate_google_def translate_direct_def
  translate_pivot_def doTranslation_run opus_mt_def synthesize_def textToSpeechWithGoogle_def
  textToSpeechWithHuggingFace_def fallbackModels_def mockSpeechToText_def mockTranslation_def
  mockTextToSpeech_def start_def record_event_def emit_def Let_def

section \<open>Total fallback\<close>

lemma stt_all_fail:
  assumes "all_providers_fail w"
  shows "\<exists>e. fst (stt_try_models w models b s) = Inl e"
proof (induction models arbitrary: s)
  case Nil
  show ?case by simp
next
  case (Cons model models)
  from assms have "isl (stt_post w (trace s) model b)"
    by (simp add: all_providers_fail_def)
  then obtain e where "stt_post w (trace s) model b = Inl e"
    by (cases "stt_post w (trace s) model b") auto
  with Cons show ?case by (simp add: Let_def)
qed

lemma transcribe_all_fail:
  assumes "all_providers_fail w"
  shows "fst (transcribe w b sock s) = mockSpeechToText b"
proof -
  from stt_all_fail [OF assms] obtain e where "fst (stt_try_models w stt_models b s) = Inl e"
    by blast
  then show ?thesis
    by (cases "stt_try_models w stt_models b s")
       (simp add: transcribe_def speechToTextWithHuggingFace_def)
qed

lemma doTranslation_all_fail:
  assumes "all_providers_fail w"
  shows "isl (fst (doTranslation w input model s))"
proof -
  from assms have "isl (translate_post w (trace s) model input)"
    by (simp add: all_providers_fail_def)
  then show ?thesis
    by (cases "translate_post w (trace s) model input") (auto simp: doTranslation_run)
qed

lemma translateWithHuggingFace_all_fail:
  assumes "all_providers_fail w"
  shows "isl (fst (translateWithHuggingFace w words sourceLang targetLang s))"
proof -
  have g: "fst (translate_google w words sourceLang targetLang s) = None"
  proof -
    from assms have "isl (google_translate w (trace s) words sourceLang targetLang)"
      by (simp add: all_providers_fail_def)
    then show ?thesis
      by (cases "google_translate w (trace s) words sourceLang targetLang")
         (auto simp: translate_google_def Let_def)
  qed
  have d: "fst (translate_direct w words sourceLang targetLang z) = None" for z
    using doTranslation_all_fail [OF assms, of words "opus_mt sourceLang targetLang" z]
    by (cases "doTranslation w words (opus_mt sourceLang targetLang) z")
       (auto simp: translate_direct_def split: sum.splits)
  have p: "isl (fst (translate_pivot w words sourceLang targetLang z))" for z
    using doTranslation_all_fail [OF assms, of words "opus_mt sourceLang ''en''" z]
    by (cases "doTranslation w words (opus_mt sourceLang ''en'') z")
       (auto simp: translate_pivot_def split: sum.splits)
  obtain s1 where 1: "translate_google w words sourceLang targetLang s = (None, s1)"
    using g by (cases "translate_google w words sourceLang targetLang s") auto
  obtain s2 where 2: "translate_direct w words sourceLang targetLang s1 = (None, s2)"
    using d [of s1] by (cases "translate_direct w words sourceLang targetLang s1") auto
  show ?thesis
    using p [of s2] by (simp add: translateWithHuggingFace_def 1 2)
qed

lemma translate_all_fail:
  assumes "all_providers_fail w"
  shows "fst (translate w original detected targetLang s) =
           (if detected = targetLang then original else mockTranslation original detected targetLang)"
  using translateWithHuggingFace_all_fail [OF assms, of original detected targetLang s]
  by (cases "translateWithHuggingFace w original detected targetLang s")
     (auto simp: translate_def split: sum.splits)

lemma tts_fallbacks_all_fail:
  assumes "all_providers_fail w"
  shows "isl (fst (tts_try_fallbacks w models words s))"
proof (induction models arbitrary: s)
  case Nil
  show ?case by simp
next
  case (Cons model models)
  from assms have "isl (tts_post w (trace s) model words)"
    by (simp add: all_providers_fail_def)
  then obtain e where "tts_post w (trace s) model words = Inl e"
    by (cases "tts_post w (trace s) model words") auto
  with Cons show ?case by (simp add: Let_def)
qed

lemma synthesize_all_fail:
  assumes "all_providers_fail w" and "google_tts_calls_back w"
  shows "fst (synthesize w words targetLang s) = Some (mockTextToSpeech words targetLang)"
proof -
  obtain p s1 where g: "textToSpeechWithGoogle w words targetLang s = (p, s1)"
    by (cases "textToSpeechWithGoogle w words targetLang s")
  from assms(1) have "\<And>a. gtts w (trace s) words targetLang
      (join (tmpdir w) (''tts-'' @ decimal (now w (trace s)) @ ''.mp3'')) \<noteq> Saved a"
    by (simp add: all_providers_fail_def)
  moreover from assms(2) have "\<And>left. gtts w (trace s) words targetLang
      (join (tmpdir w) (''tts-'' @ decimal (now w (trace s)) @ ''.mp3'')) \<noteq> NeverCallsBack left"
    by (simp add: google_tts_calls_back_def)
  ultimately obtain e where p: "p = Rejected e"
    using textToSpeechWithGoogle_outcome [OF g refl refl]
    by (cases "gtts w (trace s) words targetLang
          (join (tmpdir w) (''tts-'' @ decimal (now w (trace s)) @ ''.mp3''))") auto
  from assms(1) have "isl (tts_post w (trace s1) (tts_model targetLang) words)"
    by (simp add: all_providers_fail_def)
  then obtain e' where "tts_post w (trace s1) (tts_model targetLang) words = Inl e'"
    by (cases "tts_post w (trace s1) (tts_model targetLang) words") auto
  then have "isl (fst (textToSpeechWithHuggingFace w words targetLang s1))"
    using tts_fallbacks_all_fail [OF assms(1)]
    by (simp add: textToSpeechWithHuggingFace_def Let_def)
  then show ?thesis
    using g p
    by (cases "textToSpeechWithHuggingFace w words targetLang s1")
       (auto simp: synthesize_def split: sum.splits)
qed

lemma detected_language_declared:
  "sourceLang \<noteq> ''auto'' \<Longrightarrow> detected_language w b sock s sourceLang = Inr sourceLang"
  by (cases "transcribe w b sock s") (simp add: detected_language_def detect_def)

text \<open>
  Where the \<open>save\<close> of Google TTS always calls back, the fallback is total: for every job
  whose audio converts to a buffer of at least 1000 bytes and whose source language is not
  \<open>'auto'\<close> (or is \<open>'auto'\<close>, the default, and the detection stage returns a language),
  the pipeline returns a result, whatever the providers answer. When every request for
  speech-to-text, translation and synthesis fails, the result holds the mock transcript,
  the mock translation of it (the transcript itself when the detected language is the
  target language, where nothing is translated) and the mock audio.
\<close>

lemma pipeline_total_fallback:
  assumes "audioBuffer_of audioData = Inr audioBuffer" and "1000 \<le> length audioBuffer"
      and "default_to ''auto'' sourceLang \<noteq> ''auto''
           \<or> \<not> isl (detected_language w audioBuffer sock s ''auto'')"
      and "google_tts_calls_back w"
  shows "\<exists>result s' detected.
           processAudioPipeline w audioData sourceLang targetLang sock s = (Resolved result, s')
           \<and> detected_language w audioBuffer sock s (default_to ''auto'' sourceLang) = Inr detected
           \<and> (all_providers_fail w \<longrightarrow>
                originalText result = mockSpeechToText audioBuffer
                \<and> text' result =
                    (if detected = default_to ''es'' targetLang then originalText result
                     else mockTranslation (originalText result) detected (default_to ''es'' targetLang))
                \<and> audio result = mockTextToSpeech (text' result) (default_to ''es'' targetLang))"
proof -
  obtain original s1 where t: "transcribe w audioBuffer sock s = (original, s1)"
    by (cases "transcribe w audioBuffer sock s")
  obtain d s2 where d: "detect w (default_to ''auto'' sourceLang) original s1 = (d, s2)"
    by (cases "detect w (default_to ''auto'' sourceLang) original s1")
  have dl: "detected_language w audioBuffer sock s (default_to ''auto'' sourceLang) = d"
    using t d by (simp add: detected_language_def)
  have "\<not> isl d"
  proof (cases "default_to ''auto'' sourceLang = ''auto''")
    case True
    with assms(3) dl show ?thesis by simp
  next
    case False
    with detected_language_declared [OF False, of w audioBuffer sock s] dl show ?thesis by simp
  qed
  then obtain detected where det: "d = Inr detected" by (cases d) auto
  from pipeline_run [OF assms(1,2) t d, of targetLang] det obtain translatedText r s3 s4 where
    tr: "translate w original detected (default_to ''es'' targetLang) s2 = (translatedText, s3)"
    and sy0: "synthesize w translatedText (default_to ''es'' targetLang) s3 = (r, s4)"
    and run0: "processAudioPipeline w audioData sourceLang targetLang sock s =
                ((case r of
                    None \<Rightarrow> Pending
                  | Some translatedAudio \<Rightarrow>
                      Resolved \<lparr>audio = translatedAudio, text' = translatedText,
                                 originalText = original\<rparr>), s4)"
    by auto
  from synthesize_returns [OF assms(4) sy0] obtain translatedAudio where
    "r = Some translatedAudio" by blast
  with sy0 run0 have
    sy: "synthesize w translatedText (default_to ''es'' targetLang) s3 = (Some translatedAudio, s4)"
    and run: "processAudioPipeline w audioData sourceLang targetLang sock s =
                (Resolved \<lparr>audio = translatedAudio, text' = translatedText, originalText = original\<rparr>, s4)"
    by simp_all
  have mock: "original = mockSpeechToText audioBuffer
      \<and> translatedText = (if detected = default_to ''es'' targetLang then original
           else mockTranslation original detected (default_to ''es'' targetLang))
      \<and> translatedAudio = mockTextToSpeech translatedText (default_to ''es'' targetLang)"
    if "all_providers_fail w"
    using transcribe_all_fail [OF that, of audioBuffer sock s] t
          translate_all_fail [OF that, of original detected "default_to ''es'' targetLang" s2] tr
          synthesize_all_fail [OF that assms(4), of translatedText "default_to ''es'' targetLang" s3] sy
    by simp
  show ?thesis
    using run dl det mock
    by (intro exI [of _ "\<lparr>audio = translatedAudio, text' = translatedText, originalText = original\<rparr>"]
          exI [of _ s4] exI [of _ detected]) simp
qed

text \<open>
  C1. The pipeline does not always return. \<open>textToSpeechWithGoogle\<close> settles its promise
  only in the callback of \<open>save\<close>, and waits for it without a timeout (lines 420-438),
  where every HTTP request of the server has one. With every provider failing and Google
  out of reach, so that \<open>save\<close> never calls back, a job with a kilobyte of audio and a
  declared source language has its two speech-to-text requests and its translation request
  fail, calls Google TTS, and stops there: the pipeline's promise is never settled, no
  Hugging Face model is asked for the audio, no mock audio is put in its place, and the
  handler emits nothing, neither \<open>translated-audio\<close> nor \<open>error\<close>.
\<close>

theorem pipeline_waits_for_google_tts_for_ever:
  "all_providers_fail unreachable_world
   \<and> processAudioPipeline unreachable_world (BufferValue (silence 1000)) (Some ''en'') (Some ''es'')
        (Some ''socket-1'') start
      = (Pending,
         \<lparr>trace =
            [SttCall ''openai/whisper-base'' (silence 1000) (Inl unavailable),
             SttCall ''openai/whisper-large-v3'' (silence 1000) (Inl unavailable),
             TranslateCall ''Helsinki-NLP/opus-mt-en-es''
               ''This is a test translation from the mock service'' (Inl unavailable),
             GttsCall ''[Translated to es] This is a test translation from the mock service''
               ''es'' ''/tmp/tts-0.mp3'' (NeverCallsBack None)],
          files = Map.empty\<rparr>)
   \<and> on_audio_stream unreachable_world ''socket-1''
        (Payload \<lparr>audio_field = BufferValue (silence 1000), sourceLang_field = Some ''en'',
                   targetLang_field = Some ''es''\<rparr>) start
      = (Pending,
         \<lparr>trace =
            [SttCall ''openai/whisper-base'' (silence 1000) (Inl unavailable),
             SttCall ''openai/whisper-large-v3'' (silence 1000) (Inl unavailable),
             TranslateCall ''Helsinki-NLP/opus-mt-en-es''
               ''This is a test translation from the mock service'' (Inl unavailable),
             GttsCall ''[Translated to es] This is a test translation from the mock service''
               ''es'' ''/tmp/tts-0.mp3'' (NeverCallsBack None)],
          files = Map.empty\<rparr>)"
proof -
  have "all_providers_fail unreachable_world"
    by (simp add: all_providers_fail_def unreachable_world_def failing_world_def)
  moreover have run: "processAudioPipeline unreachable_world (BufferValue (silence 1000)) (Some ''en'') (Some ''es'')
        (Some ''socket-1'') start
      = (Pending,
         \<lparr>trace =
            [SttCall ''openai/whisper-base'' (silence 1000) (Inl unavailable),
             SttCall ''openai/whisper-large-v3'' (silence 1000) (Inl unavailable),
             TranslateCall ''Helsinki-NLP/opus-mt-en-es''
               ''This is a test translation from the mock service'' (Inl unavailable),
             GttsCall ''[Translated to es] This is a test translation from the mock service''
               ''es'' ''/tmp/tts-0.mp3'' (NeverCallsBack None)],
          files = Map.empty\<rparr>)"
    by (simp add: run_defs unreachable_world_def failing_world_def join_tmp decimal_0)
  ultimately show ?thesis
    by (simp add: on_audio_stream_def)
qed

section \<open>The same language\<close>

text \<open>
  C3. When the source language, declared or detected, is the target language, the
  pipeline returns the transcript as the translated text, and the trace of the run holds
  no request to a translation provider (Google Translate or a Hugging Face model). The run
  returns unless the \<open>save\<close> of Google TTS has not called back in it; then it is left
  waiting in the synthesis stage, and its trace holds no request to a translation provider
  either.
\<close>

theorem same_language_skips_translation:
  assumes "audioBuffer_of audioData = Inr audioBuffer" and "1000 \<le> length audioBuffer"
      and "detected_language w audioBuffer sock s (default_to ''auto'' sourceLang)
             = Inr (default_to ''es'' targetLang)"
  shows "\<exists>original p s'.
           processAudioPipeline w audioData sourceLang targetLang sock s = (p, s')
           \<and> filter is_translation_call (new_events s s') = []
           \<and> (if list_ex never_called_back (new_events s s') then p = Pending
              else (\<exists>translatedAudio.
                      p = Resolved \<lparr>audio = translatedAudio, text' = original,
                                     originalText = original\<rparr>))"
proof -
  obtain original s1 where t: "transcribe w audioBuffer sock s = (original, s1)"
    by (cases "transcribe w audioBuffer sock s")
  obtain d s2 where d0: "detect w (default_to ''auto'' sourceLang) original s1 = (d, s2)"
    by (cases "detect w (default_to ''auto'' sourceLang) original s1")
  with t assms(3) have d: "detect w (default_to ''auto'' sourceLang) original s1
      = (Inr (default_to ''es'' targetLang), s2)"
    by (simp add: detected_language_def)
  from pipeline_run [OF assms(1,2) t d, of targetLang] obtain translatedText r s3 s4 where
    tr: "translate w original (default_to ''es'' targetLang) (default_to ''es'' targetLang) s2
           = (translatedText, s3)"
    and sy: "synthesize w translatedText (default_to ''es'' targetLang) s3 = (r, s4)"
    and run: "processAudioPipeline w audioData sourceLang targetLang sock s =
                ((case r of
                    None \<Rightarrow> Pending
                  | Some translatedAudio \<Rightarrow>
                      Resolved \<lparr>audio = translatedAudio, text' = translatedText,
                                 originalText = original\<rparr>), s4)"
    by auto
  from translate_trace [OF tr] have same: "translatedText = original" "s3 = s2"
    by simp_all
  from transcribe_trace [OF t] obtain c1 where
    t1: "trace s1 = trace s @ c1" and k1: "list_all (\<lambda>e. is_stt_call e \<or> is_emit e) c1"
    by (cases "fst (speechToTextWithHuggingFace w audioBuffer s)"; cases sock)
       (auto simp: list_all_iff)
  have "filter is_translation_call c1 = []"
  proof (rule filter_none [OF k1])
    fix e
    assume "is_stt_call e \<or> is_emit e"
    then show "\<not> is_translation_call e" by (cases e) auto
  qed
  moreover have "\<not> list_ex never_called_back c1"
  proof (rule none_of [OF k1])
    fix e
    assume "is_stt_call e \<or> is_emit e"
    then show "\<not> never_called_back e" by (cases e) auto
  qed
  ultimately have c1: "trace s1 = trace s @ c1" "filter is_translation_call c1 = []"
      "\<not> list_ex never_called_back c1"
    using t1 by simp_all
  from detect_trace [OF d] obtain c2 where
    t2: "trace s2 = trace s1 @ c2" and k2: "list_all is_detect_call c2"
    by auto
  have c2: "trace s2 = trace s1 @ c2" "filter is_translation_call c2 = []"
      "\<not> list_ex never_called_back c2"
    using t2 k2
    by (simp_all add: filter_none [where P = is_detect_call] none_of [where P = is_detect_call])
  from synthesize_trace [OF sy] obtain c3 where
    c3: "trace s4 = trace s3 @ c3" "filter is_translation_call c3 = []"
      "list_ex never_called_back c3 \<longleftrightarrow> r = None"
    by (auto simp: filter_none [where P = is_synthesis_call])
  have "trace s4 = trace s @ (c1 @ c2 @ c3)"
    using c1(1) c2(1) c3(1) same(2) by simp
  then have new: "new_events s s4 = c1 @ c2 @ c3"
    by (rule new_events_append)
  with c1(2) c2(2) c3(2) have none: "filter is_translation_call (new_events s s4) = []"
    by simp
  from new c1(3) c2(3) c3(3) have waits: "list_ex never_called_back (new_events s s4) \<longleftrightarrow> r = None"
    by (simp add: list_ex_append)
  show ?thesis
  proof (cases r)
    case None
    with run none waits show ?thesis by auto
  next
    case (Some translatedAudio)
    with run none waits same(1) show ?thesis by auto
  qed
qed

theorem same_language_skips_translation_witness:
  "detected_language patchy_world (silence 1000) (Some ''socket-1'') start (default_to ''auto'' None)
     = Inr (default_to ''es'' (Some ''fr''))
   \<and> (\<exists>s'.
         processAudioPipeline patchy_world (BufferValue (silence 1000)) None (Some ''fr'')
           (Some ''socket-1'') start =
           (Resolved \<lparr>audio = silence 200, text' = ''bonjour'', originalText = ''bonjour''\<rparr>, s')
         \<and> filter is_translation_call (new_events start s') = [])"
proof -
  have v1: "audioBuffer_of (BufferValue (silence 1000)) = Inr (silence 1000)" by simp
  have v2: "1000 \<le> length (silence 1000)" by simp
  have d: "detected_language patchy_world (silence 1000) (Some ''socket-1'') start (default_to ''auto'' None)
     = Inr (default_to ''es'' (Some ''fr''))"
    by (simp add: detected_language_def run_defs patchy_world_def)
  have result: "fst (processAudioPipeline patchy_world (BufferValue (silence 1000)) None (Some ''fr'')
           (Some ''socket-1'') start) =
           Resolved \<lparr>audio = silence 200, text' = ''bonjour'', originalText = ''bonjour''\<rparr>"
    by (simp add: run_defs tts_model_def property_def modelMap_def patchy_world_def)
  from same_language_skips_translation [OF v1 v2 d]
  obtain original p s' where
    run: "processAudioPipeline patchy_world (BufferValue (silence 1000)) None (Some ''fr'')
           (Some ''socket-1'') start = (p, s')"
    and none: "filter is_translation_call (new_events start s') = []"
    by blast
  from run result have "p = Resolved \<lparr>audio = silence 200, text' = ''bonjour'', originalText = ''bonjour''\<rparr>"
    by simp
  with run none d show ?thesis by blast
qed

section \<open>Progress events\<close>

text \<open>The events emitted for a job whose pipeline run returns a result.\<close>

lemma emitted_events_of_resolved_job:
  assumes "truthy (audio_field job)"
      and "audioBuffer_of (audio_field job) = Inr audioBuffer"
      and "processAudioPipeline w (audio_field job) (sourceLang_field job) (targetLang_field job)
             (Some sock) s = (Resolved result, s1)"
  shows "filter is_emit (new_events s (snd (on_audio_stream w sock (Payload job) s))) =
           (case fst (speechToTextWithHuggingFace w audioBuffer s) of
              Inr transcript \<Rightarrow> [Emit sock ''transcription-update'' (OriginalText transcript)]
            | Inl sttError \<Rightarrow> [])
           @ [Emit sock ''translated-audio'' (AudioAndText (audio result) (text' result))]
         \<and> originalText result =
             (case fst (speechToTextWithHuggingFace w audioBuffer s) of
                Inr transcript \<Rightarrow> transcript
              | Inl sttError \<Rightarrow> mockSpeechToText audioBuffer)"
proof -
  have big: "1000 \<le> length audioBuffer"
    using assms(2,3) by (auto simp: processAudioPipeline_def Let_def split: if_splits)
  obtain original sa where t: "transcribe w audioBuffer (Some sock) s = (original, sa)"
    by (cases "transcribe w audioBuffer (Some sock) s")
  obtain d sb where d: "detect w (default_to ''auto'' (sourceLang_field job)) original sa = (d, sb)"
    by (cases "detect w (default_to ''auto'' (sourceLang_field job)) original sa")
  from pipeline_run [OF assms(2) big t d, of "targetLang_field job"] assms(3)
  obtain detected translatedText r sc where
    det: "d = Inr detected"
    and tr: "translate w original detected (default_to ''es'' (targetLang_field job)) sb = (translatedText, sc)"
    and sy: "synthesize w translatedText (default_to ''es'' (targetLang_field job)) sc = (r, s1)"
    and res0: "(case r of
                  None \<Rightarrow> Pending
                | Some translatedAudio \<Rightarrow>
                    Resolved \<lparr>audio = translatedAudio, text' = translatedText,
                               originalText = original\<rparr>) = Resolved result"
    by (cases d) auto
  from res0 have res: "text' result = translatedText" "originalText result = original"
    by (cases r; auto)+
  let ?update = "case fst (speechToTextWithHuggingFace w audioBuffer s) of
              Inr transcript \<Rightarrow> [Emit sock ''transcription-update'' (OriginalText transcript)]
            | Inl sttError \<Rightarrow> []"
  let ?done = "Emit sock ''translated-audio'' (AudioAndText (audio result) (text' result))"
  from transcribe_trace [OF t] obtain c1 where
    c1: "trace sa = trace s @ c1 @ ?update" "filter is_emit c1 = []"
    and orig: "original = (case fst (speechToTextWithHuggingFace w audioBuffer s) of
                Inr transcript \<Rightarrow> transcript
              | Inl sttError \<Rightarrow> mockSpeechToText audioBuffer)"
    by (cases "fst (speechToTextWithHuggingFace w audioBuffer s)")
       (auto simp: filter_none [where P = is_stt_call])
  from detect_trace [OF d] obtain c2 where
    c2: "trace sb = trace sa @ c2" "filter is_emit c2 = []"
    by (auto simp: filter_none [where P = is_detect_call])
  from translate_trace [OF tr] obtain c3 where
    c3: "trace sc = trace sb @ c3" "filter is_emit c3 = []"
    by (auto simp: filter_none [where P = is_translation_call])
  from synthesize_trace [OF sy] obtain c4 where
    c4: "trace s1 = trace sc @ c4" "filter is_emit c4 = []"
    by (auto simp: filter_none [where P = is_synthesis_call])
  have handler: "snd (on_audio_stream w sock (Payload job) s) = emit sock ''translated-audio''
      (AudioAndText (audio result) (text' result)) s1"
    using assms(1,3) by (simp add: on_audio_stream_def)
  have "trace (snd (on_audio_stream w sock (Payload job) s)) = trace s @
      (c1 @ ?update @ c2 @ c3 @ c4 @ [?done])"
    using c1(1) c2(1) c3(1) c4(1) handler by simp
  then have "new_events s (snd (on_audio_stream w sock (Payload job) s)) =
      c1 @ ?update @ c2 @ c3 @ c4 @ [?done]"
    by (rule new_events_append)
  moreover have "filter is_emit ?update = ?update"
    by (cases "fst (speechToTextWithHuggingFace w audioBuffer s)") simp_all
  ultimately have "filter is_emit (new_events s (snd (on_audio_stream w sock (Payload job) s))) =
      ?update @ [?done]"
    using c1(2) c2(2) c3(2) c4(2) by simp
  with orig res show ?thesis by simp
qed

text \<open>The pipeline itself emits nothing but \<open>transcription-update\<close> events.\<close>

lemma pipeline_emits:
  assumes "processAudioPipeline w audioData sourceLang targetLang (Some sock) s = (p, s1)"
  shows "\<exists>evs. trace s1 = trace s @ evs
           \<and> (\<forall>e\<in>set evs. is_emit e \<longrightarrow> (\<exists>t. e = Emit sock ''transcription-update'' (OriginalText t)))"
proof (cases "\<exists>b. audioBuffer_of audioData = Inr b \<and> 1000 \<le> length b")
  case False
  with assms have "s1 = s"
    by (cases "audioBuffer_of audioData") (auto simp: processAudioPipeline_def Let_def)
  then show ?thesis by simp
next
  case True
  then obtain b where b: "audioBuffer_of audioData = Inr b" "1000 \<le> length b" by blast
  obtain original sa where t: "transcribe w b (Some sock) s = (original, sa)"
    by (cases "transcribe w b (Some sock) s")
  obtain d sb where d: "detect w (default_to ''auto'' sourceLang) original sa = (d, sb)"
    by (cases "detect w (default_to ''auto'' sourceLang) original sa")
  let ?ok = "\<lambda>e. is_emit e \<longrightarrow> (\<exists>t. e = Emit sock ''transcription-update'' (OriginalText t))"
  from transcribe_trace [OF t] obtain c1 where c1: "trace sa = trace s @ c1" "\<forall>e\<in>set c1. ?ok e"
    by (cases "fst (speechToTextWithHuggingFace w b s)") (auto simp: list_all_iff)
  from detect_trace [OF d] obtain c2 where c2: "trace sb = trace sa @ c2" "\<forall>e\<in>set c2. ?ok e"
    by (auto simp: list_all_iff)
  show ?thesis
  proof (cases d)
    case (Inl e)
    with pipeline_run [OF b t d, of targetLang] assms have "s1 = sb" by simp
    with c1 c2 show ?thesis by auto
  next
    case (Inr detected)
    with pipeline_run [OF b t d, of targetLang] assms obtain translatedText r sc where
      tr: "translate w original detected (default_to ''es'' targetLang) sb = (translatedText, sc)"
      and sy: "synthesize w translatedText (default_to ''es'' targetLang) sc = (r, s1)"
      by auto
    from translate_trace [OF tr] obtain c3 where c3: "trace sc = trace sb @ c3" "\<forall>e\<in>set c3. ?ok e"
      by (auto simp: list_all_iff)
    from synthesize_trace [OF sy] obtain c4 where c4: "trace s1 = trace sc @ c4" "\<forall>e\<in>set c4. ?ok e"
      by (auto simp: list_all_iff)
    have "trace s1 = trace s @ (c1 @ c2 @ c3 @ c4)"
      using c1(1) c2(1) c3(1) c4(1) by simp
    moreover have "\<forall>e\<in>set (c1 @ c2 @ c3 @ c4). ?ok e"
      using c1(2) c2(2) c3(2) c4(2) by auto
    ultimately show ?thesis by blast
  qed
qed

text \<open>
  C6, as the code has it. When a job ends with a \<open>translated-audio\<close> event, the pipeline
  has returned a result, whose audio and text the event carries. If a speech-to-text model
  has returned the transcript, the events emitted for the job are a
  \<open>transcription-update\<close> carrying \<open>originalText\<close> and then the \<open>translated-audio\<close> event;
  if every speech-to-text model has failed, so that \<open>originalText\<close> is the mock transcript,
  the \<open>translated-audio\<close> event is the only event emitted.
\<close>

theorem transcription_update_before_translated_audio:
  assumes "Emit sock ''translated-audio'' p \<in> set (new_events s (snd (on_audio_stream w sock data s)))"
  shows "\<exists>job audioBuffer result.
           data = Payload job
           \<and> audioBuffer_of (audio_field job) = Inr audioBuffer
           \<and> fst (processAudioPipeline w (audio_field job) (sourceLang_field job)
                   (targetLang_field job) (Some sock) s) = Resolved result
           \<and> p = AudioAndText (audio result) (text' result)
           \<and> filter is_emit (new_events s (snd (on_audio_stream w sock data s))) =
               (case fst (speechToTextWithHuggingFace w audioBuffer s) of
                  Inr transcript \<Rightarrow> [Emit sock ''transcription-update'' (OriginalText transcript)]
                | Inl sttError \<Rightarrow> [])
               @ [Emit sock ''translated-audio'' p]
           \<and> originalText result =
               (case fst (speechToTextWithHuggingFace w audioBuffer s) of
                  Inr transcript \<Rightarrow> transcript
                | Inl sttError \<Rightarrow> mockSpeechToText audioBuffer)"
proof -
  have "\<exists>job. data = Payload job"
  proof (rule ccontr)
    assume "\<not> (\<exists>job. data = Payload job)"
    then have "new_events s (snd (on_audio_stream w sock data s)) = []"
      by (cases data) (simp_all add: on_audio_stream_def)
    with assms show False by simp
  qed
  then obtain job where job: "data = Payload job" by blast
  have tr: "truthy (audio_field job)"
  proof (rule ccontr)
    assume "\<not> truthy (audio_field job)"
    then have "new_events s (snd (on_audio_stream w sock data s))
        = [Emit sock ''error'' (Message ''No audio data received.'')]"
      by (simp add: job on_audio_stream_def new_events_def)
    with assms show False by simp
  qed
  obtain q s1 where run: "processAudioPipeline w (audio_field job) (sourceLang_field job)
      (targetLang_field job) (Some sock) s = (q, s1)"
    by (cases "processAudioPipeline w (audio_field job) (sourceLang_field job)
      (targetLang_field job) (Some sock) s")
  from pipeline_emits [OF run] obtain evs where
    evs: "trace s1 = trace s @ evs"
      "\<forall>e\<in>set evs. is_emit e \<longrightarrow> (\<exists>t. e = Emit sock ''transcription-update'' (OriginalText t))"
    by blast
  have not_here: "Emit sock ''translated-audio'' p \<notin> set evs"
    using evs(2) by fastforce
  have "\<exists>result. q = Resolved result"
  proof (cases q)
    case (Resolved result)
    then show ?thesis by simp
  next
    case (Rejected e)
    with tr run evs(1) have "new_events s (snd (on_audio_stream w sock data s))
        = evs @ [Emit sock ''error'' (Message (''Pipeline failed: '' @ message e))]"
      by (simp add: job on_audio_stream_def new_events_def)
    with assms not_here show ?thesis by simp
  next
    case Pending
    with tr run evs(1) have "new_events s (snd (on_audio_stream w sock data s)) = evs"
      by (simp add: job on_audio_stream_def new_events_def)
    with assms not_here show ?thesis by simp
  qed
  then obtain result where q: "q = Resolved result" by blast
  have "\<exists>b. audioBuffer_of (audio_field job) = Inr b"
    using run q by (cases "audioBuffer_of (audio_field job)") (auto simp: processAudioPipeline_def Let_def)
  then obtain audioBuffer where b: "audioBuffer_of (audio_field job) = Inr audioBuffer" by blast
  have p: "p = AudioAndText (audio result) (text' result)"
  proof -
    from tr run q evs(1) have "new_events s (snd (on_audio_stream w sock data s))
        = evs @ [Emit sock ''translated-audio'' (AudioAndText (audio result) (text' result))]"
      by (simp add: job on_audio_stream_def new_events_def)
    with assms not_here show ?thesis by simp
  qed
  from emitted_events_of_resolved_job [OF tr b run [unfolded q]] run q b p job
  show ?thesis by auto
qed

theorem transcription_update_before_translated_audio_witness:
  "filter is_emit
       (new_events start
          (snd (on_audio_stream patchy_world ''socket-1''
             (Payload \<lparr>audio_field = BufferValue (silence 1000), sourceLang_field = Some ''fr'',
                targetLang_field = Some ''ko''\<rparr>) start)))
     = [Emit ''socket-1'' ''transcription-update'' (OriginalText ''bonjour''),
        Emit ''socket-1'' ''translated-audio'' (AudioAndText (silence 200) ''annyeong'')]
   \<and> fst (speechToTextWithHuggingFace patchy_world (silence 1000) start) = Inr ''bonjour''
   \<and> fst (processAudioPipeline patchy_world (BufferValue (silence 1000)) (Some ''fr'') (Some ''ko'')
          (Some ''socket-1'') start)
       = Resolved \<lparr>audio = silence 200, text' = ''annyeong'', originalText = ''bonjour''\<rparr>"
proof -
  let ?job = "\<lparr>audio_field = BufferValue (silence 1000), sourceLang_field = Some ''fr'',
                targetLang_field = Some ''ko''\<rparr>"
  have stt: "fst (speechToTextWithHuggingFace patchy_world (silence 1000) start) = Inr ''bonjour''"
    by (simp add: run_defs patchy_world_def)
  have run: "fst (processAudioPipeline patchy_world (audio_field ?job) (sourceLang_field ?job)
      (targetLang_field ?job) (Some ''socket-1'') start) =
        Resolved \<lparr>audio = silence 200, text' = ''annyeong'', originalText = ''bonjour''\<rparr>"
    by (simp add: run_defs tts_model_def property_def modelMap_def object_prototype_def patchy_world_def)
  have ends: "Emit ''socket-1'' ''translated-audio'' (AudioAndText (silence 200) ''annyeong'')
      \<in> set (new_events start (snd (on_audio_stream patchy_world ''socket-1'' (Payload ?job) start)))"
    using run
    by (cases "processAudioPipeline patchy_world (audio_field ?job) (sourceLang_field ?job)
      (targetLang_field ?job) (Some ''socket-1'') start")
       (simp add: on_audio_stream_def new_events_def start_def)
  from transcription_update_before_translated_audio [OF ends] stt run
  show ?thesis by auto
qed

text \<open>
  C6 as stated fails: with every service down the job still ends with a
  \<open>translated-audio\<close> event, and no \<open>transcription-update\<close> event precedes it.
\<close>

theorem no_transcription_update_after_mock_transcript:
  "filter is_emit
     (trace (snd (on_audio_stream failing_world ''socket-1''
        (Payload \<lparr>audio_field = BufferValue (silence 1000), sourceLang_field = Some ''en'',
           targetLang_field = Some ''es''\<rparr>) start)))
   = [Emit ''socket-1'' ''translated-audio''
        (AudioAndText ''mock-audio-data''
           ''[Translated to es] This is a test translation from the mock service'')]"
  by (simp add: on_audio_stream_def processAudioPipeline_def default_to_def transcribe_def
      speechToTextWithHuggingFace_def stt_models_def detect_def translate_def
      translateWithHuggingFace_def translate_google_def translate_direct_def translate_pivot_def
      doTranslation_run opus_mt_def synthesize_def textToSpeechWithGoogle_def
      textToSpeechWithHuggingFace_def fallbackModels_def mockSpeechToText_def mockTranslation_def
      mockTextToSpeech_def failing_world_def start_def record_event_def emit_def Let_def)

section \<open>The temporary file of Google TTS\<close>

text \<open>
  C9. The file is unlinked only on the path on which \<open>save\<close> has succeeded and the file
  has been read. When \<open>save\<close> calls back with an error after it has written to the
  file, \<open>textToSpeechWithGoogle\<close> rejects and the file stays where it is.
\<close>

theorem temp_file_left_after_failed_save:
  "fst (textToSpeechWithGoogle patchy_world ''hola'' ''es'' start) = Rejected unavailable
   \<and> files (snd (textToSpeechWithGoogle patchy_world ''hola'' ''es'' start)) ''/tmp/tts-0.mp3''
       = Some ''ID3''"
  by (simp add: textToSpeechWithGoogle_def patchy_world_def start_def join_tmp decimal_0 Let_def)

text \<open>After a successful \<open>save\<close> the file is read and deleted.\<close>

lemma temp_file_deleted_after_save:
  assumes "tmpFile = join (tmpdir w) (''tts-'' @ decimal (now w (trace s)) @ ''.mp3'')"
      and "gtts w (trace s) words lang tmpFile = Saved written"
  shows "fst (textToSpeechWithGoogle w words lang s) = Resolved written
         \<and> files (snd (textToSpeechWithGoogle w words lang s)) tmpFile = None"
  using assms by (simp add: textToSpeechWithGoogle_def Let_def)

end
